theory Spec2Isabelle
  imports Complex_Main
begin

section \<open>Monte Carlo pricers: shared numerical model\<close>

text \<open>
  The four pricers (\<^verbatim>\<open>pricer_vanilla.py\<close>, \<^verbatim>\<open>pricer_tunnel.py\<close>,
  \<^verbatim>\<open>pricer_napoleon.py\<close>, \<^verbatim>\<open>pricer_himalaya.py\<close>) compute on Python and numpy
  floats. The model computes on the reals and rounding is not modelled. A float that is
  \<open>inf\<close> or \<open>nan\<close> (numpy's result for a division by zero, the mean of an empty
  slice, the square root of a negative number, the logarithm of a non-positive number) is
  not a real number: in a list of simulated prices or of payoffs it is \<open>None\<close>, and an
  evaluator whose result it is returns \<open>Inl NonFinite\<close>. Python goes on computing with
  such a value. \<open>ZeroDivisionError\<close>, \<open>IndexError\<close> and \<open>ValueError\<close> are the Python
  exceptions of these names, which end the run.
\<close>

datatype error = NonFinite | ZeroDivisionError | IndexError | ValueError

text \<open>
  \<^verbatim>\<open>np.random.normal(0, 1)\<close> reads a global generator. The model makes it explicit:
  \<open>z\<close> is the sequence of draws the generator would return and the state is the
  position \<open>n\<close> of the next draw.
\<close>

type_synonym draws = "nat \<Rightarrow> real"

text \<open>\<^verbatim>\<open>np.mean(xs)\<close>; callers guard the empty list, where numpy returns \<open>nan\<close>.\<close>

definition np_mean :: "real list \<Rightarrow> real" where
  "np_mean xs = sum_list xs / real (length xs)"

text \<open>
  \<^verbatim>\<open>np.std(xs)\<close> with its default \<^verbatim>\<open>ddof=0\<close>: the square root of the mean of the
  squared deviations from the mean (the divisor is the number of elements).
\<close>

definition np_std :: "real list \<Rightarrow> real" where
  "np_std xs = sqrt (np_mean (map (\<lambda>x. (x - np_mean xs)\<^sup>2) xs))"

text \<open>\<^verbatim>\<open>np.max(xs)\<close> of a non-empty list, as a left-to-right reduction.\<close>

definition np_max :: "real list \<Rightarrow> real" where
  "np_max xs = fold max (tl xs) (hd xs)"

text \<open>
  \<^verbatim>\<open>np.arange(start, stop, step)\<close> for a positive step: the values
  \<open>start + k * step\<close> for \<open>k\<close> below the ceiling of \<open>(stop - start) / step\<close>. In exact
  arithmetic; numpy takes the ceiling of the rounded quotient, so its length can be one
  more than here when the exact quotient is an integer.
\<close>

definition np_arange :: "real \<Rightarrow> real \<Rightarrow> real \<Rightarrow> real list" where
  "np_arange start stop step =
     map (\<lambda>k. start + real k * step) [0..<nat \<lceil>(stop - start) / step\<rceil>]"

subsection \<open>The log-Euler loop shared by the single-asset pricers\<close>

text \<open>
  \<^verbatim>\<open>
  S = [S_0]
  for i in range(1, len(t)):
      dt = t[i] - t[i-1]
      S.append(S[-1] * np.exp((mu - (sigma**2)/2) * dt + sigma * np.sqrt(dt) * np.random.normal(0, 1)))
  return S
  \<close>
  The same body is \<^verbatim>\<open>McSimul.simulate_gbm\<close>, \<^verbatim>\<open>TunnelOptionPricer.simulate_gbm\<close> and
  \<^verbatim>\<open>NapoleonOptionPricer.simulate_geometric_brownian_motion\<close>. The loop runs over the
  indices \<open>[1..<length t]\<close>, which are all in range for \<open>t\<close>; \<open>S\<close> is never empty, so
  \<open>last S\<close> is \<^verbatim>\<open>S[-1]\<close>. The prices are floats: for a negative \<open>dt\<close> the
  square root is \<open>nan\<close> and so is the new price, whatever the volatility, and a \<open>nan\<close>
  price makes every later price \<open>nan\<close>.
\<close>

definition gbm_step :: "real \<Rightarrow> real \<Rightarrow> real \<Rightarrow> real \<Rightarrow> real option \<Rightarrow> real option" where
  "gbm_step mu_v sigma_v dt z_v prev =
     (case prev of
        None \<Rightarrow> None
      | Some s \<Rightarrow>
          if dt < 0 then None
          else Some (s * exp ((mu_v - sigma_v\<^sup>2 / 2) * dt + sigma_v * sqrt dt * z_v)))"

fun gbm_loop ::
  "real \<Rightarrow> real \<Rightarrow> real list \<Rightarrow> draws \<Rightarrow> nat list \<Rightarrow> real option list \<times> nat
     \<Rightarrow> real option list \<times> nat" where
  "gbm_loop mu_v sigma_v t z [] st = st"
| "gbm_loop mu_v sigma_v t z (i # js) (S, n) =
     (let dt = t ! i - t ! (i - 1) in
      gbm_loop mu_v sigma_v t z js (S @ [gbm_step mu_v sigma_v dt (z n) (last S)], Suc n))"

definition gbm_path ::
  "real \<Rightarrow> real \<Rightarrow> real \<Rightarrow> real list \<Rightarrow> draws \<Rightarrow> nat \<Rightarrow> real option list \<times> nat" where
  "gbm_path S0 mu_v sigma_v t z n = gbm_loop mu_v sigma_v t z [1..<length t] ([Some S0], n)"

text \<open>
  The evaluators below are written for lists of finite prices. \<open>those\<close> turns a
  simulated path into such a list when none of its prices is \<open>nan\<close>.
\<close>

subsection \<open>The convergence estimator shared by the four pricers\<close>

text \<open>
  \<^verbatim>\<open>
  a = norm.ppf(self.confidence_interval)
  moving_average = []; standard_deviation = []; lower_bound = []; upper_bound = []
  for i in range(len(payoffs)):
      moving_average.append(np.mean(payoffs[:i+1]))
      standard_deviation.append(np.std(payoffs[:i+1]))
      lower_bound.append(moving_average[-1] - a * standard_deviation[-1] / np.sqrt(i) if i > 0 else moving_average[-1])
      upper_bound.append(moving_average[-1] + a * standard_deviation[-1] / np.sqrt(i) if i > 0 else moving_average[-1])
  return moving_average, lower_bound, upper_bound
  \<close>
  \<^verbatim>\<open>norm.ppf\<close> is scipy's standard-normal quantile function, which is not part of the
  repository: the real number \<open>a\<close> it returns at the configured confidence level is a
  parameter of the model.
\<close>

fun convergence_loop ::
  "real \<Rightarrow> real list \<Rightarrow> nat list
     \<Rightarrow> real list \<times> real list \<times> real list \<times> real list
     \<Rightarrow> real list \<times> real list \<times> real list \<times> real list" where
  "convergence_loop a payoffs [] st = st"
| "convergence_loop a payoffs (i # js) (moving_average, standard_deviation, lower_bound, upper_bound) =
     (let m = np_mean (take (i + 1) payoffs);
          sd = np_std (take (i + 1) payoffs)
      in convergence_loop a payoffs js
           (moving_average @ [m],
            standard_deviation @ [sd],
            lower_bound @ [if i > 0 then m - a * sd / sqrt (real i) else m],
            upper_bound @ [if i > 0 then m + a * sd / sqrt (real i) else m]))"

definition convergence_lists ::
  "real \<Rightarrow> real list \<Rightarrow> real list \<times> real list \<times> real list \<times> real list" where
  "convergence_lists a payoffs = convergence_loop a payoffs [0..<length payoffs] ([], [], [], [])"

text \<open>What the method returns: the moving average and the two bounds.\<close>

definition perform_monte_carlo :: "real \<Rightarrow> real list \<Rightarrow> real list \<times> real list \<times> real list" where
  "perform_monte_carlo a payoffs =
     (case convergence_lists a payoffs of
        (moving_average, standard_deviation, lower_bound, upper_bound)
          \<Rightarrow> (moving_average, lower_bound, upper_bound))"

text \<open>
  The standard deviation the loop keeps for each prefix (a local list of the method).
\<close>

definition standard_deviation_list :: "real \<Rightarrow> real list \<Rightarrow> real list" where
  "standard_deviation_list a payoffs = fst (snd (convergence_lists a payoffs))"

text \<open>
  The sample standard deviation in the specification's words: the square root of the
  sum of squared deviations from the mean over one less than the number of elements.
\<close>

definition sample_standard_deviation :: "real list \<Rightarrow> real" where
  "sample_standard_deviation xs =
     sqrt (sum_list (map (\<lambda>x. (x - np_mean xs)\<^sup>2) xs) / (real (length xs) - 1))"

text \<open>
  \<^verbatim>\<open>error = upper_bound[-1] - lower_bound[-1]\<close> in \<^verbatim>\<open>generate_convergence_curve\<close>;
  on empty lists Python raises \<open>IndexError\<close>.
\<close>

definition final_error :: "real list \<times> real list \<times> real list \<Rightarrow> error + real" where
  "final_error r =
     (case r of (moving_average, lower_bound, upper_bound) \<Rightarrow>
        if upper_bound = [] \<or> lower_bound = [] then Inl IndexError
        else Inr (last upper_bound - last lower_bound))"

section \<open>Vanilla pricer (\<^verbatim>\<open>pricer_vanilla.py\<close>, class \<^verbatim>\<open>McSimul\<close>)\<close>

record McSimul =
  initial_stock_price :: real
  strike_price :: real
  volatility :: real
  drift :: real
  maturity :: real
  confidence_interval :: real
  num_simulations :: int

text \<open>
  \<^verbatim>\<open>McSimul.__init__\<close> stores its seven arguments; it has no other statement.
\<close>

definition McSimul_init :: "real \<Rightarrow> real \<Rightarrow> real \<Rightarrow> real \<Rightarrow> real \<Rightarrow> real \<Rightarrow> int \<Rightarrow> McSimul" where
  "McSimul_init initial_stock_price_v strike_price_v volatility_v drift_v maturity_v
       confidence_interval_v num_simulations_v =
     \<lparr>initial_stock_price = initial_stock_price_v, strike_price = strike_price_v,
      volatility = volatility_v, drift = drift_v, maturity = maturity_v,
      confidence_interval = confidence_interval_v, num_simulations = num_simulations_v\<rparr>"

text \<open>
  \<^verbatim>\<open>
  t_1 = np.arange(0, 60/252, 1/252)
  t_2 = np.arange(self.maturity-59/252, self.maturity, 1/252)
  return np.concatenate((t_1, t_2), axis=0)
  \<close>
  In exact arithmetic \<open>t_2\<close> has 59 points and stops one step before maturity. On IEEE
  doubles the quotient that gives its length rounds to just above 59 for whole maturities
  of 1 to 32 years, and numpy then returns 60 points, the last one at maturity up to
  rounding. No theorem below depends on which of the two lengths the grid has.
\<close>

definition McSimul_generate_time_vector :: "McSimul \<Rightarrow> real list" where
  "McSimul_generate_time_vector p =
     (let t_1 = np_arange 0 (60 / 252) (1 / 252);
          t_2 = np_arange (McSimul.maturity p - 59 / 252) (McSimul.maturity p) (1 / 252)
      in t_1 @ t_2)"

definition McSimul_simulate_gbm ::
  "McSimul \<Rightarrow> real list \<Rightarrow> draws \<Rightarrow> nat \<Rightarrow> real option list \<times> nat" where
  "McSimul_simulate_gbm p time_vector z n =
     gbm_path (McSimul.initial_stock_price p) (McSimul.drift p) (McSimul.volatility p) time_vector z n"

text \<open>
  \<^verbatim>\<open>return np.max([np.mean(stock_prices[61:]) / np.mean(stock_prices[:60]) - self.strike_price, 0])\<close>
  The mean of an empty slice is \<open>nan\<close> and a zero mean in the divisor gives \<open>inf\<close> or
  \<open>nan\<close>; \<open>np.max\<close> of a two-element list is the larger element.
\<close>

definition McSimul_calculate_payoff :: "McSimul \<Rightarrow> real list \<Rightarrow> error + real" where
  "McSimul_calculate_payoff p stock_prices =
     (if drop 61 stock_prices = [] \<or> take 60 stock_prices = []
         \<or> np_mean (take 60 stock_prices) = 0
      then Inl NonFinite
      else Inr (np_max [np_mean (drop 61 stock_prices) / np_mean (take 60 stock_prices)
                          - McSimul.strike_price p, 0]))"

text \<open>
  The payoff of a simulated path, as a float. In a simulated path a \<open>nan\<close> price is
  followed by \<open>nan\<close> prices only, so the last price is \<open>nan\<close>; it belongs to
  \<^verbatim>\<open>stock_prices[61:]\<close> whenever that slice is not empty, and the payoff is \<open>nan\<close>
  either way. The method raises no exception.
\<close>

definition McSimul_payoff_sample :: "McSimul \<Rightarrow> real option list \<Rightarrow> real option" where
  "McSimul_payoff_sample p path =
     (case those path of
        None \<Rightarrow> None
      | Some stock_prices \<Rightarrow>
          (case McSimul_calculate_payoff p stock_prices of
             Inl e \<Rightarrow> None
           | Inr x \<Rightarrow> Some x))"

text \<open>
  \<^verbatim>\<open>
  payoffs = []
  for _ in range(int(self.num_simulations)):
      stock_prices = self.simulate_gbm(time_vector)
      payoffs.append(self.calculate_payoff(stock_prices))
  return payoffs
  \<close>
  The loop, for a given number of remaining trials. Every trial appends its payoff,
  finite or not.
\<close>

fun McSimul_trials ::
  "McSimul \<Rightarrow> real list \<Rightarrow> draws \<Rightarrow> nat \<Rightarrow> real option list \<times> nat
     \<Rightarrow> real option list \<times> nat" where
  "McSimul_trials p time_vector z 0 st = st"
| "McSimul_trials p time_vector z (Suc k) (payoffs, n) =
     (case McSimul_simulate_gbm p time_vector z n of
        (stock_prices, n') \<Rightarrow>
          McSimul_trials p time_vector z k
            (payoffs @ [McSimul_payoff_sample p stock_prices], n'))"

definition McSimul_simulate_monte_carlo :: "McSimul \<Rightarrow> draws \<Rightarrow> nat \<Rightarrow> real option list" where
  "McSimul_simulate_monte_carlo p z n =
     (let time_vector = McSimul_generate_time_vector p in
      fst (McSimul_trials p time_vector z (nat (McSimul.num_simulations p)) ([], n)))"

text \<open>
  The Vanilla payoff in the specification's words: the mean of the last 60 observations
  over the mean of the first 60, less the strike, floored at zero.
\<close>

definition spec_vanilla_payoff :: "real \<Rightarrow> real list \<Rightarrow> real" where
  "spec_vanilla_payoff strike stock_prices =
     max (np_mean (drop (length stock_prices - 60) stock_prices) / np_mean (take 60 stock_prices)
            - strike) 0"

text \<open>Scenario A of the specification, and a generator whose every draw is zero.\<close>

definition scenario_A :: McSimul where
  "scenario_A = McSimul_init 100 0 0 0 1 (95 / 100) 10"

definition zero_draws :: draws where
  "zero_draws k = 0"

section \<open>Tunnel pricer (\<^verbatim>\<open>pricer_tunnel.py\<close>, class \<^verbatim>\<open>TunnelOptionPricer\<close>)\<close>

record TunnelOptionPricer =
  S_0 :: real
  K :: "real list"
  sigma :: real
  mu :: real
  Ns :: int
  IC :: real
  alpha :: real
  beta :: real
  maturity :: real

text \<open>\<^verbatim>\<open>TunnelOptionPricer.__init__\<close> stores its nine arguments and does nothing else.\<close>

definition Tunnel_init ::
  "real \<Rightarrow> real list \<Rightarrow> real \<Rightarrow> real \<Rightarrow> int \<Rightarrow> real \<Rightarrow> real \<Rightarrow> real \<Rightarrow> real \<Rightarrow> TunnelOptionPricer" where
  "Tunnel_init S_0_v K_v sigma_v mu_v Ns_v IC_v alpha_v beta_v maturity_v =
     \<lparr>S_0 = S_0_v, K = K_v, sigma = sigma_v, mu = mu_v, Ns = Ns_v, IC = IC_v,
      alpha = alpha_v, beta = beta_v, maturity = maturity_v\<rparr>"

text \<open>\<^verbatim>\<open>return np.arange(0, self.maturity, 1/4)\<close>\<close>

definition Tunnel_generate_t :: "TunnelOptionPricer \<Rightarrow> real list" where
  "Tunnel_generate_t p = np_arange 0 (TunnelOptionPricer.maturity p) (1 / 4)"

definition Tunnel_simulate_gbm ::
  "TunnelOptionPricer \<Rightarrow> real list \<Rightarrow> draws \<Rightarrow> nat \<Rightarrow> real option list \<times> nat" where
  "Tunnel_simulate_gbm p t z n = gbm_path (S_0 p) (mu p) (sigma p) t z n"

text \<open>
  \<^verbatim>\<open>
  payoff = 0
  for i in S[1:len(S)-1]:
      if self.K[0] < i < self.K[1]:
          payoff += i/self.S_0 * self.alpha
      elif i > self.K[1]:
          payoff += i/self.S_0 * self.beta
      else:
          payoff = 0
  return payoff + np.max([S[-1]/self.S_0 - self.K[1], 0])
  \<close>
  The loop body, on the accumulated payoff, then the loop over the interior observations.
\<close>

definition Tunnel_payoff_step :: "TunnelOptionPricer \<Rightarrow> real \<Rightarrow> real \<Rightarrow> real" where
  "Tunnel_payoff_step p payoff i =
     (if K p ! 0 < i \<and> i < K p ! 1 then payoff + i / S_0 p * alpha p
      else if i > K p ! 1 then payoff + i / S_0 p * beta p
      else 0)"

fun Tunnel_payoff_loop :: "TunnelOptionPricer \<Rightarrow> real list \<Rightarrow> real \<Rightarrow> real" where
  "Tunnel_payoff_loop p [] payoff = payoff"
| "Tunnel_payoff_loop p (i # rest) payoff = Tunnel_payoff_loop p rest (Tunnel_payoff_step p payoff i)"

text \<open>
  The exceptions, in the order Python meets them. The loop reads \<open>K[0]\<close> and \<open>K[1]\<close>
  for every interior observation and raises \<open>IndexError\<close> when there are fewer than two
  strikes. Then \<open>S[-1]\<close> raises \<open>IndexError\<close> on an empty list, the quotient
  \<open>S[-1]/S_0\<close> raises \<open>ZeroDivisionError\<close> when \<open>S_0\<close> is zero and \<open>S[-1]\<close> is a Python
  float, which in a simulated path is the case of the one-element path \<open>[S_0]\<close> (every
  later price is a numpy float), and \<open>K[1]\<close> raises \<open>IndexError\<close>. With two strikes
  and a longer path a zero \<open>S_0\<close> makes the terminal quotient non-finite: on the path
  simulated from a zero initial price, which holds zeros only, it is \<open>0/0\<close> and the
  payoff is \<open>nan\<close>.
\<close>

definition Tunnel_payoff :: "TunnelOptionPricer \<Rightarrow> real list \<Rightarrow> error + real" where
  "Tunnel_payoff p S =
     (if drop 1 (take (length S - 1) S) \<noteq> [] \<and> length (K p) < 2 then Inl IndexError
      else if S = [] then Inl IndexError
      else if S_0 p = 0 \<and> length S = 1 then Inl ZeroDivisionError
      else if length (K p) < 2 then Inl IndexError
      else if S_0 p = 0 then Inl NonFinite
      else Inr (Tunnel_payoff_loop p (drop 1 (take (length S - 1) S)) 0
                  + np_max [last S / S_0 p - K p ! 1, 0]))"

text \<open>
  The payoff of a simulated path, as a float. A path with a \<open>nan\<close> price has at least
  two prices and ends with \<open>nan\<close>: the comparisons and quotients of the loop raise
  nothing on \<open>nan\<close>, the strikes are read as before, and the terminal term, hence the
  payoff, is \<open>nan\<close>.
\<close>

definition Tunnel_payoff_sample :: "TunnelOptionPricer \<Rightarrow> real option list \<Rightarrow> error + real option" where
  "Tunnel_payoff_sample p path =
     (case those path of
        None \<Rightarrow> if length (K p) < 2 then Inl IndexError else Inr None
      | Some S \<Rightarrow>
          (case Tunnel_payoff p S of
             Inl NonFinite \<Rightarrow> Inr None
           | Inl e \<Rightarrow> Inl e
           | Inr x \<Rightarrow> Inr (Some x)))"

text \<open>
  \<^verbatim>\<open>
  t = self.generate_t()
  P = []
  for _ in range(self.Ns):
      S = self.simulate_gbm(t)
      P.append(self.payoff(S))
  return P
  \<close>
  A trial appends its payoff, finite or not; an exception ends the run.
\<close>

fun Tunnel_trials ::
  "TunnelOptionPricer \<Rightarrow> real list \<Rightarrow> draws \<Rightarrow> nat \<Rightarrow> real option list \<times> nat
     \<Rightarrow> error + real option list \<times> nat" where
  "Tunnel_trials p t z 0 st = Inr st"
| "Tunnel_trials p t z (Suc k) (P, n) =
     (case Tunnel_simulate_gbm p t z n of
        (S, n') \<Rightarrow>
          (case Tunnel_payoff_sample p S of
             Inl e \<Rightarrow> Inl e
           | Inr x \<Rightarrow> Tunnel_trials p t z k (P @ [x], n')))"

definition Tunnel_simulate_monte_carlo ::
  "TunnelOptionPricer \<Rightarrow> draws \<Rightarrow> nat \<Rightarrow> error + real option list" where
  "Tunnel_simulate_monte_carlo p z n =
     (let t = Tunnel_generate_t p in
      case Tunnel_trials p t z (nat (Ns p)) ([], n) of
        Inl e \<Rightarrow> Inl e
      | Inr (P, n') \<Rightarrow> Inr P)"

section \<open>Napoleon pricer (\<^verbatim>\<open>pricer_napoleon.py\<close>, class \<^verbatim>\<open>NapoleonOptionPricer\<close>)\<close>

record NapoleonOptionPricer =
  initial_stock_price :: real
  volatility :: real
  drift :: real
  maturity :: real
  confidence_interval :: real
  num_simulations :: int
  fixed_coupon :: real
  floor_n :: real

text \<open>\<^verbatim>\<open>NapoleonOptionPricer.__init__\<close> stores its eight arguments and does nothing else.\<close>

definition Napoleon_init ::
  "real \<Rightarrow> real \<Rightarrow> real \<Rightarrow> real \<Rightarrow> real \<Rightarrow> int \<Rightarrow> real \<Rightarrow> real \<Rightarrow> NapoleonOptionPricer" where
  "Napoleon_init initial_stock_price_v volatility_v drift_v maturity_v confidence_interval_v
       num_simulations_v fixed_coupon_v floor_v =
     \<lparr>initial_stock_price = initial_stock_price_v, volatility = volatility_v, drift = drift_v,
      maturity = maturity_v, confidence_interval = confidence_interval_v,
      num_simulations = num_simulations_v, fixed_coupon = fixed_coupon_v, floor_n = floor_v\<rparr>"

definition Napoleon_simulate_geometric_brownian_motion ::
  "NapoleonOptionPricer \<Rightarrow> real list \<Rightarrow> draws \<Rightarrow> nat \<Rightarrow> real option list \<times> nat" where
  "Napoleon_simulate_geometric_brownian_motion p time_vector z n =
     gbm_path (NapoleonOptionPricer.initial_stock_price p) (NapoleonOptionPricer.drift p)
       (NapoleonOptionPricer.volatility p) time_vector z n"

text \<open>
  \<^verbatim>\<open>
  payoff = 0
  for i in range(int(len(stock_trajectory)/12)):
      for j in range(12):
          monthly_returns = [stock_trajectory[j] / stock_trajectory[j - 1] - 1 for j in range(1, len(stock_trajectory))]
          monthly_returns_grouped = [monthly_returns[i:i+12] for i in range(0, len(monthly_returns), 12)]

      for returns_group in monthly_returns_grouped:
          min_monthly_return = min(returns_group) if returns_group else 0
          payoff += max(self.fixed_coupon + min_monthly_return, self.floor)

  return payoff
  \<close>
  The variables of a comprehension are local to it in Python 3, so the comprehensions
  do not read the loop variables \<open>i\<close> and \<open>j\<close>. The loop over \<open>j\<close> computes the same
  two lists twelve times, and the loop over the groups is inside the loop over \<open>i\<close>.
\<close>

definition monthly_returns :: "real list \<Rightarrow> real list" where
  "monthly_returns stock_trajectory =
     map (\<lambda>j. stock_trajectory ! j / stock_trajectory ! (j - 1) - 1) [1..<length stock_trajectory]"

text \<open>\<^verbatim>\<open>range(0, len(rs), 12)\<close> is \<open>0, 12, 24, ...\<close> below \<open>len(rs)\<close>.\<close>

definition monthly_returns_grouped :: "real list \<Rightarrow> real list list" where
  "monthly_returns_grouped rs =
     map (\<lambda>k. take 12 (drop (12 * k) rs)) [0..<(length rs + 11) div 12]"

text \<open>Python's \<^verbatim>\<open>min\<close> of a non-empty list.\<close>

definition py_min :: "real list \<Rightarrow> real" where
  "py_min xs = fold min (tl xs) (hd xs)"

definition block_contribution :: "NapoleonOptionPricer \<Rightarrow> real list \<Rightarrow> real" where
  "block_contribution p returns_group =
     (let min_monthly_return = (if returns_group \<noteq> [] then py_min returns_group else 0)
      in max (fixed_coupon p + min_monthly_return) (floor_n p))"

fun Napoleon_groups_loop :: "NapoleonOptionPricer \<Rightarrow> real list list \<Rightarrow> real \<Rightarrow> real" where
  "Napoleon_groups_loop p [] payoff = payoff"
| "Napoleon_groups_loop p (returns_group # gs) payoff =
     Napoleon_groups_loop p gs (payoff + block_contribution p returns_group)"

fun Napoleon_outer_loop :: "NapoleonOptionPricer \<Rightarrow> real list \<Rightarrow> nat list \<Rightarrow> real \<Rightarrow> real" where
  "Napoleon_outer_loop p stock_trajectory [] payoff = payoff"
| "Napoleon_outer_loop p stock_trajectory (i # js) payoff =
     Napoleon_outer_loop p stock_trajectory js
       (Napoleon_groups_loop p (monthly_returns_grouped (monthly_returns stock_trajectory)) payoff)"

text \<open>
  The returns divide by every observation but the last; they are computed only when the
  outer loop runs, that is when there are at least 12 observations.
\<close>

definition calculate_option_payoff :: "NapoleonOptionPricer \<Rightarrow> real list \<Rightarrow> error + real" where
  "calculate_option_payoff p stock_trajectory =
     (if 12 \<le> length stock_trajectory \<and> 0 \<in> set (butlast stock_trajectory) then Inl NonFinite
      else Inr (Napoleon_outer_loop p stock_trajectory [0..<length stock_trajectory div 12] 0))"

text \<open>
  The Napoleon payoff in the specification's words: the sum, over the blocks of 12
  consecutive monthly returns, of \<open>max(fixedCoupon + min(block), floor)\<close>, each block
  counted once.
\<close>

definition spec_napoleon_payoff :: "NapoleonOptionPricer \<Rightarrow> real list \<Rightarrow> real" where
  "spec_napoleon_payoff p stock_trajectory =
     sum_list (map (\<lambda>block. max (fixed_coupon p + py_min block) (floor_n p))
                 (monthly_returns_grouped (monthly_returns stock_trajectory)))"

section \<open>Himalaya pricer (\<^verbatim>\<open>pricer_himalaya.py\<close>, class \<^verbatim>\<open>HimalayaOptionPricer\<close>)\<close>

record HimalayaOptionPricer =
  initial_asset_values :: "real list"
  strike_price :: real
  volatility :: real
  mean :: real
  num_simulations :: int
  num_assets :: int
  confidence_level :: real

text \<open>
  \<^verbatim>\<open>HimalayaOptionPricer.__init__\<close> stores its seven arguments and does nothing else.
  The class documents \<open>strike_price\<close> as a float; the form passes a list of strikes,
  and with a one-element list numpy computes the same payoff as with the float.
\<close>

definition Himalaya_init ::
  "real list \<Rightarrow> real \<Rightarrow> real \<Rightarrow> real \<Rightarrow> int \<Rightarrow> int \<Rightarrow> real \<Rightarrow> HimalayaOptionPricer" where
  "Himalaya_init initial_asset_values_v strike_price_v volatility_v mean_v num_simulations_v
       num_assets_v confidence_level_v =
     \<lparr>initial_asset_values = initial_asset_values_v, strike_price = strike_price_v,
      volatility = volatility_v, mean = mean_v, num_simulations = num_simulations_v,
      num_assets = num_assets_v, confidence_level = confidence_level_v\<rparr>"

text \<open>\<^verbatim>\<open>return [i for i in range(self.num_assets)]\<close>\<close>

definition Himalaya_generate_time_vector :: "HimalayaOptionPricer \<Rightarrow> real list" where
  "Himalaya_generate_time_vector p = map real [0..<nat (num_assets p)]"

text \<open>
  \<^verbatim>\<open>
  trajectories = []
  for i in range(len(self.initial_asset_values)):
      trajectory = [np.log(self.initial_asset_values[i])]
      for j in range(1, len(time_vector)):
          dt = time_vector[j] - time_vector[j-1]
          trajectory.append(trajectory[-1] + (self.mean - (self.volatility**2) / 2) * dt + self.volatility * np.sqrt(dt) * np.random.normal(0, 1))
      trajectories.append(trajectory)
  return trajectories
  \<close>
  The inner loop, then the loop over the assets. The logarithm of a non-positive initial
  value is not finite, and neither is the square root of a negative step, which every
  series meets: the result then holds non-finite values.
\<close>

fun Himalaya_steps ::
  "HimalayaOptionPricer \<Rightarrow> real list \<Rightarrow> draws \<Rightarrow> nat list \<Rightarrow> real list \<times> nat \<Rightarrow> real list \<times> nat" where
  "Himalaya_steps p time_vector z [] st = st"
| "Himalaya_steps p time_vector z (j # js) (trajectory, n) =
     (let dt = time_vector ! j - time_vector ! (j - 1) in
      Himalaya_steps p time_vector z js
        (trajectory @ [last trajectory + (mean p - (HimalayaOptionPricer.volatility p)\<^sup>2 / 2) * dt
                         + HimalayaOptionPricer.volatility p * sqrt dt * z n], Suc n))"

fun Himalaya_assets ::
  "HimalayaOptionPricer \<Rightarrow> real list \<Rightarrow> draws \<Rightarrow> real list \<Rightarrow> real list list \<times> nat
     \<Rightarrow> real list list \<times> nat" where
  "Himalaya_assets p time_vector z [] st = st"
| "Himalaya_assets p time_vector z (v # vs) (trajectories, n) =
     (case Himalaya_steps p time_vector z [1..<length time_vector] ([ln v], n) of
        (trajectory, n') \<Rightarrow> Himalaya_assets p time_vector z vs (trajectories @ [trajectory], n'))"

definition simulate_trajectory ::
  "HimalayaOptionPricer \<Rightarrow> real list \<Rightarrow> draws \<Rightarrow> nat \<Rightarrow> error + real list list \<times> nat" where
  "simulate_trajectory p time_vector z n =
     (if (\<exists>v \<in> set (initial_asset_values p). v \<le> 0)
         \<or> (initial_asset_values p \<noteq> []
             \<and> (\<exists>j \<in> set [1..<length time_vector]. time_vector ! j - time_vector ! (j - 1) < 0))
      then Inl NonFinite
      else Inr (Himalaya_assets p time_vector z (initial_asset_values p) ([], n)))"

text \<open>
  \<^verbatim>\<open>
  payoffs = [np.exp(trajectory[j]) for j in range(len(trajectory))]
  max_payoff = np.max(payoffs)
  return np.max(max_payoff - self.strike_price, 0)
  \<close>
  \<open>trajectory\<close> is the list of all series, so \<open>payoffs\<close> holds the exponential of every
  value of every series and \<open>np.max(payoffs)\<close> is the largest of them all; it raises
  \<open>ValueError\<close> on an empty array and on series of different lengths. The second
  positional argument of \<open>np.max\<close> is the axis: \<open>np.max(x, 0)\<close> of a scalar \<open>x\<close> is
  \<open>x\<close> itself.
\<close>

definition Himalaya_calculate_payoff :: "HimalayaOptionPricer \<Rightarrow> real list list \<Rightarrow> error + real" where
  "Himalaya_calculate_payoff p trajectory =
     (if trajectory = [] \<or> hd trajectory = []
         \<or> (\<exists>series \<in> set trajectory. length series \<noteq> length (hd trajectory))
      then Inl ValueError
      else (let payoffs = map (map exp) trajectory;
                max_payoff = np_max (concat payoffs)
            in Inr (max_payoff - HimalayaOptionPricer.strike_price p)))"

text \<open>
  The Himalaya payoff in the specification's words: the largest exponential of the
  final value of each series, less the strike, floored at zero.
\<close>

definition spec_himalaya_payoff :: "real \<Rightarrow> real list list \<Rightarrow> real" where
  "spec_himalaya_payoff strike trajectory =
     max (np_max (map (\<lambda>series. exp (last series)) trajectory) - strike) 0"

section \<open>Properties of the path simulator\<close>

lemma gbm_loop_length:
  "length (fst (gbm_loop mu_v sigma_v t z js (S, n))) = length S + length js"
  by (induction js arbitrary: S n) (simp_all add: Let_def)

lemma gbm_loop_hd:
  "S \<noteq> [] \<Longrightarrow> hd (fst (gbm_loop mu_v sigma_v t z js (S, n))) = hd S"
  by (induction js arbitrary: S n) (simp_all add: Let_def)

lemma gbm_path_length: "length (fst (gbm_path S0 mu_v sigma_v t z n)) = max (length t) 1"
  by (simp add: gbm_path_def gbm_loop_length)

lemma gbm_path_hd: "hd (fst (gbm_path S0 mu_v sigma_v t z n)) = Some S0"
  by (simp add: gbm_path_def gbm_loop_hd)

text \<open>
  A property of the prices that every step keeps, on the steps that are not negative, is
  a property of the whole path.
\<close>

lemma gbm_loop_invariant:
  assumes step: "\<And>dt z_v v. 0 \<le> dt \<Longrightarrow> Q (Some v) \<Longrightarrow> Q (gbm_step mu_v sigma_v dt z_v (Some v))"
    and finite: "\<And>x. Q x \<Longrightarrow> x \<noteq> None"
  shows "S \<noteq> [] \<Longrightarrow> \<forall>x \<in> set S. Q x \<Longrightarrow> \<forall>i \<in> set js. 0 \<le> t ! i - t ! (i - 1)
     \<Longrightarrow> \<forall>x \<in> set (fst (gbm_loop mu_v sigma_v t z js (S, n))). Q x"
proof (induction js arbitrary: S n)
  case Nil
  then show ?case by simp
next
  case (Cons i js)
  define w where "w = gbm_step mu_v sigma_v (t ! i - t ! (i - 1)) (z n) (last S)"
  from Cons.prems(2) last_in_set [OF Cons.prems(1)] have "Q (last S)"
    by (rule bspec)
  moreover from this finite obtain v where "last S = Some v"
    by (cases "last S") auto
  moreover from Cons.prems(3) have "0 \<le> t ! i - t ! (i - 1)"
    by simp
  ultimately have "Q w"
    unfolding w_def using step by simp
  with Cons.prems(2) have all: "\<forall>x \<in> set (S @ [w]). Q x"
    by simp
  have loop: "gbm_loop mu_v sigma_v t z (i # js) (S, n) = gbm_loop mu_v sigma_v t z js (S @ [w], Suc n)"
    by (simp only: gbm_loop.simps Let_def w_def)
  have ne: "S @ [w] \<noteq> []"
    by simp
  from Cons.prems(3) have rest: "\<forall>i \<in> set js. 0 \<le> t ! i - t ! (i - 1)"
    by simp
  from Cons.IH [OF ne all rest] show ?case
    by (simp only: loop)
qed

text \<open>With zero drift and zero volatility every such step multiplies by \<open>exp 0\<close>.\<close>

lemma gbm_path_constant:
  assumes "\<forall>i \<in> set [1..<length t]. 0 \<le> t ! i - t ! (i - 1)"
  shows "fst (gbm_path c 0 0 t z n) = replicate (max (length t) 1) (Some c)"
proof -
  have "\<forall>x \<in> set (fst (gbm_loop 0 0 t z [1..<length t] ([Some c], n))). x = Some c"
    by (rule gbm_loop_invariant [where Q = "\<lambda>x. x = Some c"])
      (use assms in \<open>simp_all add: gbm_step_def\<close>)
  then have "\<forall>y \<in> set (fst (gbm_path c 0 0 t z n)). y = Some c"
    by (simp only: gbm_path_def)
  then have "replicate (length (fst (gbm_path c 0 0 t z n))) (Some c) = fst (gbm_path c 0 0 t z n)"
    by (rule replicate_length_same)
  then show ?thesis
    by (simp add: gbm_path_length)
qed

text \<open>From a positive, or a negative, initial price every price is finite and of its sign.\<close>

lemma gbm_path_sign:
  assumes "\<forall>i \<in> set [1..<length t]. 0 \<le> t ! i - t ! (i - 1)" and "0 < c * S0"
  shows "\<forall>x \<in> set (fst (gbm_path S0 mu_v sigma_v t z n)). \<exists>v. x = Some v \<and> 0 < c * v"
  unfolding gbm_path_def
proof (rule gbm_loop_invariant [where Q = "\<lambda>x. \<exists>v. x = Some v \<and> 0 < c * v"])
  fix dt z_v v :: real
  assume "0 \<le> dt" and "\<exists>u. Some v = Some u \<and> 0 < c * u"
  then have "0 < c * v"
    by simp
  then have "0 < (c * v) * exp ((mu_v - sigma_v\<^sup>2 / 2) * dt + sigma_v * sqrt dt * z_v)"
    by (rule mult_pos_pos) (rule exp_gt_zero)
  with \<open>0 \<le> dt\<close> show "\<exists>u. gbm_step mu_v sigma_v dt z_v (Some v) = Some u \<and> 0 < c * u"
    by (simp add: gbm_step_def mult.assoc)
next
  show "\<And>x. \<exists>v. x = Some v \<and> 0 < c * v \<Longrightarrow> x \<noteq> None"
    by auto
  show "[Some S0] \<noteq> []"
    by simp
  show "\<forall>x \<in> set [Some S0]. \<exists>v. x = Some v \<and> 0 < c * v"
    using assms(2) by simp
  show "\<forall>i \<in> set [1..<length t]. 0 \<le> t ! i - t ! (i - 1)"
    by (rule assms(1))
qed

text \<open>From a zero initial price every finite price is zero.\<close>

lemma gbm_step_zero:
  "prev = None \<or> prev = Some 0
     \<Longrightarrow> gbm_step mu_v sigma_v dt z_v prev = None \<or> gbm_step mu_v sigma_v dt z_v prev = Some 0"
proof (cases prev)
  case None
  then show ?thesis by (simp add: gbm_step_def)
next
  case (Some s)
  assume "prev = None \<or> prev = Some 0"
  with Some have "s = 0" by simp
  with Some show ?thesis by (cases "dt < 0") (simp_all add: gbm_step_def)
qed

lemma gbm_loop_zero:
  "S \<noteq> [] \<Longrightarrow> \<forall>x \<in> set S. x = None \<or> x = Some 0
     \<Longrightarrow> \<forall>x \<in> set (fst (gbm_loop mu_v sigma_v t z js (S, n))). x = None \<or> x = Some 0"
proof (induction js arbitrary: S n)
  case Nil
  then show ?case by simp
next
  case (Cons i js)
  define w where "w = gbm_step mu_v sigma_v (t ! i - t ! (i - 1)) (z n) (last S)"
  from Cons.prems(2) last_in_set [OF Cons.prems(1)] have "last S = None \<or> last S = Some 0"
    by (rule bspec)
  then have "w = None \<or> w = Some 0"
    unfolding w_def by (rule gbm_step_zero)
  with Cons.prems(2) have all: "\<forall>x \<in> set (S @ [w]). x = None \<or> x = Some 0"
    by simp
  have loop: "gbm_loop mu_v sigma_v t z (i # js) (S, n) = gbm_loop mu_v sigma_v t z js (S @ [w], Suc n)"
    by (simp only: gbm_loop.simps Let_def w_def)
  have "S @ [w] \<noteq> []"
    by simp
  from Cons.IH [OF this all] show ?case
    by (simp only: loop)
qed

text \<open>A \<open>nan\<close> price stays in the path, and a negative step produces one.\<close>

lemma gbm_loop_keeps_nan:
  "None \<in> set S \<Longrightarrow> None \<in> set (fst (gbm_loop mu_v sigma_v t z js (S, n)))"
  by (induction js arbitrary: S n) (simp_all add: Let_def)

lemma gbm_loop_negative_step:
  "\<exists>i \<in> set js. t ! i - t ! (i - 1) < 0
     \<Longrightarrow> None \<in> set (fst (gbm_loop mu_v sigma_v t z js (S, n)))"
proof (induction js arbitrary: S n)
  case Nil
  then show ?case by simp
next
  case (Cons i js)
  define w where "w = gbm_step mu_v sigma_v (t ! i - t ! (i - 1)) (z n) (last S)"
  have loop: "gbm_loop mu_v sigma_v t z (i # js) (S, n) = gbm_loop mu_v sigma_v t z js (S @ [w], Suc n)"
    by (simp only: gbm_loop.simps Let_def w_def)
  show ?case
  proof (cases "t ! i - t ! (i - 1) < 0")
    case True
    then have "w = None"
      unfolding w_def gbm_step_def by (cases "last S") simp_all
    then have "None \<in> set (S @ [w])"
      by simp
    then show ?thesis
      unfolding loop by (rule gbm_loop_keeps_nan)
  next
    case False
    with Cons.prems have "\<exists>i \<in> set js. t ! i - t ! (i - 1) < 0"
      by simp
    then show ?thesis
      unfolding loop by (rule Cons.IH)
  qed
qed

text \<open>
  C10. For every time grid, the empty one included, the simulated path starts at the
  initial price and has \<open>max (len grid) 1\<close> elements; on an empty grid and on a
  one-point grid it is the one-element path \<open>[S0]\<close>. Stated for
  \<^verbatim>\<open>McSimul.simulate_gbm\<close> and for
  \<^verbatim>\<open>NapoleonOptionPricer.simulate_geometric_brownian_motion\<close>; \<open>Some\<close> marks a finite
  price.
\<close>

theorem path_simulator_length_and_first:
  "length (fst (McSimul_simulate_gbm p time_vector z n)) = max (length time_vector) 1
   \<and> hd (fst (McSimul_simulate_gbm p time_vector z n)) = Some (McSimul.initial_stock_price p)
   \<and> fst (McSimul_simulate_gbm p [] z n) = [Some (McSimul.initial_stock_price p)]
   \<and> fst (McSimul_simulate_gbm p [t0] z n) = [Some (McSimul.initial_stock_price p)]
   \<and> length (fst (Napoleon_simulate_geometric_brownian_motion q time_vector z n))
       = max (length time_vector) 1
   \<and> hd (fst (Napoleon_simulate_geometric_brownian_motion q time_vector z n))
       = Some (NapoleonOptionPricer.initial_stock_price q)
   \<and> fst (Napoleon_simulate_geometric_brownian_motion q [] z n)
       = [Some (NapoleonOptionPricer.initial_stock_price q)]
   \<and> fst (Napoleon_simulate_geometric_brownian_motion q [t0] z n)
       = [Some (NapoleonOptionPricer.initial_stock_price q)]"
  by (simp add: McSimul_simulate_gbm_def Napoleon_simulate_geometric_brownian_motion_def
      gbm_path_length gbm_path_hd) (simp add: gbm_path_def)

theorem path_simulator_length_and_first_witness:
  "length (fst (McSimul_simulate_gbm scenario_A [0, 1, 2] zero_draws 0)) = 3
   \<and> hd (fst (McSimul_simulate_gbm scenario_A [0, 1, 2] zero_draws 0)) = Some 100
   \<and> fst (McSimul_simulate_gbm scenario_A [] zero_draws 0) = [Some 100]"
  using path_simulator_length_and_first [of scenario_A "[0, 1, 2]" zero_draws 0 0]
  by (simp add: scenario_A_def McSimul_init_def)

section \<open>Properties of the convergence estimator\<close>

lemma convergence_loop_maps:
  "convergence_loop a payoffs js (M, SD, lo, up) =
     (M @ map (\<lambda>i. np_mean (take (i + 1) payoffs)) js,
      SD @ map (\<lambda>i. np_std (take (i + 1) payoffs)) js,
      lo @ map (\<lambda>i. if i > 0 then np_mean (take (i + 1) payoffs)
                        - a * np_std (take (i + 1) payoffs) / sqrt (real i)
                      else np_mean (take (i + 1) payoffs)) js,
      up @ map (\<lambda>i. if i > 0 then np_mean (take (i + 1) payoffs)
                        + a * np_std (take (i + 1) payoffs) / sqrt (real i)
                      else np_mean (take (i + 1) payoffs)) js)"
  by (induction js arbitrary: M SD lo up) (simp_all add: Let_def)

lemma convergence_lists_maps:
  "convergence_lists a payoffs =
     (map (\<lambda>i. np_mean (take (i + 1) payoffs)) [0..<length payoffs],
      map (\<lambda>i. np_std (take (i + 1) payoffs)) [0..<length payoffs],
      map (\<lambda>i. if i > 0 then np_mean (take (i + 1) payoffs)
                   - a * np_std (take (i + 1) payoffs) / sqrt (real i)
                 else np_mean (take (i + 1) payoffs)) [0..<length payoffs],
      map (\<lambda>i. if i > 0 then np_mean (take (i + 1) payoffs)
                   + a * np_std (take (i + 1) payoffs) / sqrt (real i)
                 else np_mean (take (i + 1) payoffs)) [0..<length payoffs])"
  by (simp add: convergence_lists_def convergence_loop_maps)

lemma nth_map_upt0: "i < n \<Longrightarrow> map f [0..<n] ! i = f i"
  by simp

lemma moving_average_nth:
  "i < length payoffs \<Longrightarrow>
     fst (perform_monte_carlo a payoffs) ! i = np_mean (take (i + 1) payoffs)"
  by (simp add: perform_monte_carlo_def convergence_lists_maps)

lemma standard_deviation_nth:
  "i < length payoffs \<Longrightarrow>
     standard_deviation_list a payoffs ! i = np_std (take (i + 1) payoffs)"
  by (simp add: standard_deviation_list_def convergence_lists_maps)

lemma lower_bound_nth:
  "i < length payoffs \<Longrightarrow>
     fst (snd (perform_monte_carlo a payoffs)) ! i =
       (if i > 0 then np_mean (take (i + 1) payoffs)
                        - a * np_std (take (i + 1) payoffs) / sqrt (real i)
        else np_mean (take (i + 1) payoffs))"
  by (simp only: perform_monte_carlo_def convergence_lists_maps prod.case fst_conv snd_conv
      nth_map_upt0)

lemma upper_bound_nth:
  "i < length payoffs \<Longrightarrow>
     snd (snd (perform_monte_carlo a payoffs)) ! i =
       (if i > 0 then np_mean (take (i + 1) payoffs)
                        + a * np_std (take (i + 1) payoffs) / sqrt (real i)
        else np_mean (take (i + 1) payoffs))"
  by (simp only: perform_monte_carlo_def convergence_lists_maps prod.case fst_conv snd_conv
      nth_map_upt0)

lemma perform_monte_carlo_lengths:
  "length (fst (perform_monte_carlo a payoffs)) = length payoffs
   \<and> length (fst (snd (perform_monte_carlo a payoffs))) = length payoffs
   \<and> length (snd (snd (perform_monte_carlo a payoffs))) = length payoffs"
  by (simp add: perform_monte_carlo_def convergence_lists_maps)

lemma np_std_nonneg: "0 \<le> np_std xs"
  unfolding np_std_def np_mean_def
  by (intro real_sqrt_ge_zero divide_nonneg_nonneg sum_list_nonneg) auto

text \<open>
  C7 (as amended). For a non-empty payoff sequence and every prefix length \<open>k\<close> from 1
  to its length: \<open>mean[k]\<close> is the arithmetic mean of the first \<open>k\<close> payoffs;
  \<open>std[k]\<close> is their population standard deviation, the square root of the sum of
  squared deviations from \<open>mean[k]\<close> over \<open>k\<close>; for \<open>k = 1\<close> both bounds equal the
  mean; for \<open>k > 1\<close> they are \<open>mean[k] - a * std[k] / sqrt (k - 1)\<close> and
  \<open>mean[k] + a * std[k] / sqrt (k - 1)\<close>, with \<open>a\<close> the quantile at the configured
  level. The lists are 0-indexed, so prefix length \<open>k\<close> is at index \<open>k - 1\<close>.
\<close>

theorem convergence_estimator_values:
  assumes "1 \<le> k" and "k \<le> length payoffs"
  shows "fst (perform_monte_carlo a payoffs) ! (k - 1) = sum_list (take k payoffs) / real k
    \<and> standard_deviation_list a payoffs ! (k - 1) =
        sqrt (sum_list (map (\<lambda>x. (x - fst (perform_monte_carlo a payoffs) ! (k - 1))\<^sup>2)
                          (take k payoffs)) / real k)
    \<and> (k = 1 \<longrightarrow> fst (snd (perform_monte_carlo a payoffs)) ! (k - 1)
                    = fst (perform_monte_carlo a payoffs) ! (k - 1)
                \<and> snd (snd (perform_monte_carlo a payoffs)) ! (k - 1)
                    = fst (perform_monte_carlo a payoffs) ! (k - 1))
    \<and> (1 < k \<longrightarrow> fst (snd (perform_monte_carlo a payoffs)) ! (k - 1)
                    = fst (perform_monte_carlo a payoffs) ! (k - 1)
                      - a * standard_deviation_list a payoffs ! (k - 1) / sqrt (real (k - 1))
                \<and> snd (snd (perform_monte_carlo a payoffs)) ! (k - 1)
                    = fst (perform_monte_carlo a payoffs) ! (k - 1)
                      + a * standard_deviation_list a payoffs ! (k - 1) / sqrt (real (k - 1)))"
proof -
  from assms obtain i where k: "k = Suc i" and i: "i < length payoffs"
    by (cases k) auto
  have len: "real (length (take (Suc i) payoffs)) = real (Suc i)"
    using i by simp
  have m: "fst (perform_monte_carlo a payoffs) ! i = sum_list (take (Suc i) payoffs) / real (Suc i)"
    using moving_average_nth [OF i, of a] len by (simp only: np_mean_def Suc_eq_plus1)
  have sd: "standard_deviation_list a payoffs ! i =
      sqrt (sum_list (map (\<lambda>x. (x - fst (perform_monte_carlo a payoffs) ! i)\<^sup>2)
                        (take (Suc i) payoffs)) / real (Suc i))"
    using standard_deviation_nth [OF i, of a] moving_average_nth [OF i, of a] len
    by (simp only: np_std_def np_mean_def Suc_eq_plus1 length_map)
  have lo: "fst (snd (perform_monte_carlo a payoffs)) ! i =
      (if i > 0 then fst (perform_monte_carlo a payoffs) ! i
                       - a * standard_deviation_list a payoffs ! i / sqrt (real i)
       else fst (perform_monte_carlo a payoffs) ! i)"
    by (simp only: lower_bound_nth [OF i] moving_average_nth [OF i] standard_deviation_nth [OF i])
  have up: "snd (snd (perform_monte_carlo a payoffs)) ! i =
      (if i > 0 then fst (perform_monte_carlo a payoffs) ! i
                       + a * standard_deviation_list a payoffs ! i / sqrt (real i)
       else fst (perform_monte_carlo a payoffs) ! i)"
    by (simp only: upper_bound_nth [OF i] moving_average_nth [OF i] standard_deviation_nth [OF i])
  show ?thesis
    unfolding k diff_Suc_1
  proof (intro conjI impI)
    show "fst (perform_monte_carlo a payoffs) ! i = sum_list (take (Suc i) payoffs) / real (Suc i)"
      by (rule m)
    show "standard_deviation_list a payoffs ! i =
      sqrt (sum_list (map (\<lambda>x. (x - fst (perform_monte_carlo a payoffs) ! i)\<^sup>2)
                        (take (Suc i) payoffs)) / real (Suc i))"
      by (rule sd)
  next
    assume "Suc i = 1"
    then have "i = 0" by simp
    then show "fst (snd (perform_monte_carlo a payoffs)) ! i = fst (perform_monte_carlo a payoffs) ! i"
      and "snd (snd (perform_monte_carlo a payoffs)) ! i = fst (perform_monte_carlo a payoffs) ! i"
      using lo up by simp_all
  next
    assume "1 < Suc i"
    then have "0 < i" by simp
    then show "fst (snd (perform_monte_carlo a payoffs)) ! i =
        fst (perform_monte_carlo a payoffs) ! i
          - a * standard_deviation_list a payoffs ! i / sqrt (real i)"
      and "snd (snd (perform_monte_carlo a payoffs)) ! i =
        fst (perform_monte_carlo a payoffs) ! i
          + a * standard_deviation_list a payoffs ! i / sqrt (real i)"
      using lo up by simp_all
  qed
qed

theorem convergence_estimator_values_witness:
  "fst (perform_monte_carlo 1 [0, 2]) ! 1 = 1
   \<and> standard_deviation_list 1 [0, 2] ! 1 = 1
   \<and> fst (snd (perform_monte_carlo 1 [0, 2])) ! 1 = 0
   \<and> snd (snd (perform_monte_carlo 1 [0, 2])) ! 1 = 2
   \<and> fst (snd (perform_monte_carlo 1 [0, 2])) ! 0 = 0"
  using convergence_estimator_values [of 2 "[0, 2]" 1]
    convergence_estimator_values [of 1 "[0, 2]" 1]
  by (simp add: power2_eq_square)

text \<open>
  C7 as stated fails: for the payoffs \<open>[0, 2]\<close> the deviation the estimator computes at
  prefix length 2 is 1, while the sample standard deviation (divisor \<open>k - 1\<close>) of the
  two payoffs is \<open>sqrt 2\<close>.
\<close>

theorem population_not_sample_deviation:
  "standard_deviation_list 1 [0, 2] ! 1 \<noteq> sample_standard_deviation (take 2 [0, 2])"
  by (simp add: standard_deviation_nth sample_standard_deviation_def np_std_def np_mean_def)

text \<open>
  C8 (as amended). For every prefix length \<open>k > 1\<close>, with \<open>a\<close> the real number the
  quantile function returns at the configured level: if \<open>a\<close> is not negative then
  \<open>lowerBound[k] \<le> mean[k] \<le> upperBound[k]\<close>; if \<open>a\<close> is negative and \<open>std[k]\<close> is
  positive then the bounds are on the wrong sides,
  \<open>upperBound[k] < mean[k] < lowerBound[k]\<close>; and if \<open>std[k]\<close> is zero both bounds
  equal the mean.
\<close>

theorem bounds_bracket_mean:
  assumes "1 < k" and "k \<le> length payoffs"
  shows "(0 \<le> a \<longrightarrow>
            fst (snd (perform_monte_carlo a payoffs)) ! (k - 1)
              \<le> fst (perform_monte_carlo a payoffs) ! (k - 1)
          \<and> fst (perform_monte_carlo a payoffs) ! (k - 1)
              \<le> snd (snd (perform_monte_carlo a payoffs)) ! (k - 1))
       \<and> (a < 0 \<and> 0 < standard_deviation_list a payoffs ! (k - 1) \<longrightarrow>
            snd (snd (perform_monte_carlo a payoffs)) ! (k - 1)
              < fst (perform_monte_carlo a payoffs) ! (k - 1)
          \<and> fst (perform_monte_carlo a payoffs) ! (k - 1)
              < fst (snd (perform_monte_carlo a payoffs)) ! (k - 1))
       \<and> (standard_deviation_list a payoffs ! (k - 1) = 0 \<longrightarrow>
            fst (snd (perform_monte_carlo a payoffs)) ! (k - 1)
              = fst (perform_monte_carlo a payoffs) ! (k - 1)
          \<and> snd (snd (perform_monte_carlo a payoffs)) ! (k - 1)
              = fst (perform_monte_carlo a payoffs) ! (k - 1))"
proof -
  from assms obtain i where k: "k = Suc i" and i: "i < length payoffs" and pos: "0 < i"
    by (cases k) auto
  let ?m = "np_mean (take (i + 1) payoffs)"
  let ?sd = "np_std (take (i + 1) payoffs)"
  have root: "0 < sqrt (real i)"
    using pos by simp
  have m: "fst (perform_monte_carlo a payoffs) ! i = ?m"
    by (rule moving_average_nth [OF i])
  have sd: "standard_deviation_list a payoffs ! i = ?sd"
    by (rule standard_deviation_nth [OF i])
  have lo: "fst (snd (perform_monte_carlo a payoffs)) ! i = ?m - a * ?sd / sqrt (real i)"
    using lower_bound_nth [OF i, of a] pos by simp
  have up: "snd (snd (perform_monte_carlo a payoffs)) ! i = ?m + a * ?sd / sqrt (real i)"
    using upper_bound_nth [OF i, of a] pos by simp
  show ?thesis
    unfolding k diff_Suc_1 m sd lo up
  proof (intro conjI impI)
    assume "0 \<le> a"
    then have "0 \<le> a * ?sd / sqrt (real i)"
      using np_std_nonneg [of "take (i + 1) payoffs"] by simp
    then show "?m - a * ?sd / sqrt (real i) \<le> ?m" and "?m \<le> ?m + a * ?sd / sqrt (real i)"
      by simp_all
  next
    assume "a < 0 \<and> 0 < ?sd"
    then have "a * ?sd < 0"
      by (simp add: mult_neg_pos)
    with root have "a * ?sd / sqrt (real i) < 0"
      by (simp add: divide_neg_pos)
    then show "?m + a * ?sd / sqrt (real i) < ?m" and "?m < ?m - a * ?sd / sqrt (real i)"
      by simp_all
  next
    assume "?sd = 0"
    then show "?m - a * ?sd / sqrt (real i) = ?m" and "?m + a * ?sd / sqrt (real i) = ?m"
      by simp_all
  qed
qed

theorem bounds_bracket_mean_witness:
  "fst (snd (perform_monte_carlo 1 [0, 2])) ! 1 \<le> fst (perform_monte_carlo 1 [0, 2]) ! 1
   \<and> fst (perform_monte_carlo 1 [0, 2]) ! 1 \<le> snd (snd (perform_monte_carlo 1 [0, 2])) ! 1
   \<and> snd (snd (perform_monte_carlo (- 1) [0, 2])) ! 1 < fst (perform_monte_carlo (- 1) [0, 2]) ! 1
   \<and> fst (perform_monte_carlo (- 1) [0, 2]) ! 1 < fst (snd (perform_monte_carlo (- 1) [0, 2])) ! 1
   \<and> fst (snd (perform_monte_carlo (- 1) [3, 3])) ! 1 = fst (perform_monte_carlo (- 1) [3, 3]) ! 1"
  using bounds_bracket_mean [of 2 "[0, 2]" 1] bounds_bracket_mean [of 2 "[0, 2]" "- 1"]
    bounds_bracket_mean [of 2 "[3, 3]" "- 1"]
  by (simp add: standard_deviation_nth np_std_def np_mean_def)

text \<open>
  C8 as stated fails when the quantile is negative, which is what scipy returns at a
  level below one half: with \<open>a = -1\<close> (scipy's value at a level of about 0.1587) and
  the payoffs \<open>[0, 2]\<close> the lower bound at prefix length 2 is 2 and the mean is 1.
\<close>

theorem negative_quantile_inverts_bounds:
  "\<not> fst (snd (perform_monte_carlo (- 1) [0, 2])) ! 1 \<le> fst (perform_monte_carlo (- 1) [0, 2]) ! 1"
  by (simp add: moving_average_nth lower_bound_nth np_std_def np_mean_def)

section \<open>Constant payoff sequences\<close>

lemma np_max_pair: "np_max [x, y] = max y x"
  by (simp add: np_max_def)

lemma np_mean_replicate: "0 < k \<Longrightarrow> np_mean (replicate k c) = c"
  by (simp add: np_mean_def sum_list_replicate)

lemma np_std_replicate: "0 < k \<Longrightarrow> np_std (replicate k c) = 0"
  by (simp add: np_std_def np_mean_replicate)

lemma map_upt_constant: "(\<And>i. i < n \<Longrightarrow> f i = c) \<Longrightarrow> map f [0..<n] = replicate n c"
  by (induction n) (simp_all add: replicate_append_same)

lemma perform_monte_carlo_replicate:
  "perform_monte_carlo a (replicate N c) = (replicate N c, replicate N c, replicate N c)"
proof -
  have t: "take (i + 1) (replicate N c) = replicate (i + 1) c" if "i < N" for i
    using that by (simp add: min_def)
  have m: "np_mean (take (i + 1) (replicate N c)) = c" if "i < N" for i
    using that np_mean_replicate [of "i + 1" c] by (simp only: t)
  have sd: "np_std (take (i + 1) (replicate N c)) = 0" if "i < N" for i
    using that np_std_replicate [of "i + 1" c] by (simp only: t)
  have "map (\<lambda>i. np_mean (take (i + 1) (replicate N c))) [0..<N] = replicate N c"
    by (rule map_upt_constant) (rule m)
  moreover have "map (\<lambda>i. if i > 0 then np_mean (take (i + 1) (replicate N c))
                   - a * np_std (take (i + 1) (replicate N c)) / sqrt (real i)
                 else np_mean (take (i + 1) (replicate N c))) [0..<N] = replicate N c"
    by (rule map_upt_constant) (simp only: m sd, simp)
  moreover have "map (\<lambda>i. if i > 0 then np_mean (take (i + 1) (replicate N c))
                   + a * np_std (take (i + 1) (replicate N c)) / sqrt (real i)
                 else np_mean (take (i + 1) (replicate N c))) [0..<N] = replicate N c"
    by (rule map_upt_constant) (simp only: m sd, simp)
  ultimately show ?thesis
    by (simp add: perform_monte_carlo_def convergence_lists_maps)
qed

section \<open>Properties of the Vanilla pricer\<close>

lemma those_map_Some: "those (map Some xs) = Some xs"
  by (induction xs) simp_all

lemma those_finite:
  "\<forall>x \<in> set path. \<exists>v. x = Some v \<Longrightarrow> \<exists>S. those path = Some S \<and> path = map Some S"
proof (induction path)
  case Nil
  then show ?case by simp
next
  case (Cons x path)
  then obtain v S where "x = Some v" and "those path = Some S" and "path = map Some S"
    by auto
  then show ?case by simp
qed

lemma those_nan: "None \<in> set path \<Longrightarrow> those path = None"
proof (induction path)
  case Nil
  then show ?case by simp
next
  case (Cons x path)
  then show ?case by (cases x) (auto split: option.splits)
qed

lemma McSimul_payoff_constant_path:
  assumes "62 \<le> k" and "c \<noteq> 0"
  shows "McSimul_calculate_payoff p (replicate k c) = Inr (max 0 (1 - McSimul.strike_price p))"
proof -
  from assms(1) have late: "drop 61 (replicate k c) = replicate (k - 61) c" and "0 < k - 61"
    by simp_all
  from assms(1) have early: "take 60 (replicate k c) = replicate 60 c"
    by (simp add: min_def)
  have "np_mean (drop 61 (replicate k c)) = c"
    using \<open>0 < k - 61\<close> by (simp only: late np_mean_replicate)
  moreover have "np_mean (take 60 (replicate k c)) = c"
    by (simp only: early) (simp add: np_mean_replicate)
  ultimately show ?thesis
    using assms \<open>0 < k - 61\<close>
    by (simp add: McSimul_calculate_payoff_def np_max_pair late early)
qed

lemma McSimul_sample_constant_path:
  assumes "62 \<le> k" and "c \<noteq> 0"
  shows "McSimul_payoff_sample p (replicate k (Some c)) = Some (max 0 (1 - McSimul.strike_price p))"
proof -
  have "those (replicate k (Some c)) = Some (replicate k c)"
    using those_map_Some [of "replicate k c"] by simp
  then show ?thesis
    by (simp add: McSimul_payoff_sample_def McSimul_payoff_constant_path [OF assms])
qed

lemma McSimul_trials_length:
  "length (fst (McSimul_trials p time_vector z k (payoffs, n))) = length payoffs + k"
proof (induction k arbitrary: payoffs n)
  case 0
  then show ?case by simp
next
  case (Suc k)
  obtain stock_prices n1 where "McSimul_simulate_gbm p time_vector z n = (stock_prices, n1)"
    by (cases "McSimul_simulate_gbm p time_vector z n")
  then show ?case
    using Suc.IH [of "payoffs @ [McSimul_payoff_sample p stock_prices]" n1] by simp
qed

lemma McSimul_trials_all:
  assumes "\<And>n. Q (McSimul_payoff_sample p (fst (McSimul_simulate_gbm p time_vector z n)))"
  shows "\<forall>x \<in> set payoffs. Q x
           \<Longrightarrow> \<forall>x \<in> set (fst (McSimul_trials p time_vector z k (payoffs, n))). Q x"
proof (induction k arbitrary: payoffs n)
  case 0
  then show ?case by simp
next
  case (Suc k)
  obtain stock_prices n1 where sim: "McSimul_simulate_gbm p time_vector z n = (stock_prices, n1)"
    by (cases "McSimul_simulate_gbm p time_vector z n")
  with assms [of n] have "Q (McSimul_payoff_sample p stock_prices)"
    by simp
  with Suc.prems have "\<forall>x \<in> set (payoffs @ [McSimul_payoff_sample p stock_prices]). Q x"
    by simp
  from Suc.IH [OF this, of n1] show ?case
    by (simp add: sim)
qed

lemma McSimul_trials_constant_payoff:
  assumes "\<And>n. McSimul_payoff_sample p (fst (McSimul_simulate_gbm p time_vector z n)) = x"
  shows "fst (McSimul_trials p time_vector z k ([], n)) = replicate k x"
proof -
  have "\<forall>y \<in> set (fst (McSimul_trials p time_vector z k ([], n))). y = x"
    by (rule McSimul_trials_all [where Q = "\<lambda>y. y = x"]) (simp_all add: assms)
  then have "replicate (length (fst (McSimul_trials p time_vector z k ([], n)))) x
               = fst (McSimul_trials p time_vector z k ([], n))"
    by (rule replicate_length_same)
  then show ?thesis
    by (simp add: McSimul_trials_length)
qed

text \<open>
  The grid of the model: 60 daily points from 0, then 59 daily points from
  \<open>maturity - 59/252\<close>. Its steps are one day, but for the step between the two windows,
  which is \<open>maturity - 118/252\<close>.
\<close>

lemma McSimul_grid_form:
  "McSimul_generate_time_vector p =
     map (\<lambda>k. real k / 252) [0..<60]
       @ map (\<lambda>k. McSimul.maturity p - 59 / 252 + real k / 252) [0..<59]"
  by (simp add: McSimul_generate_time_vector_def np_arange_def)

lemma McSimul_grid_length: "length (McSimul_generate_time_vector p) = 119"
  by (simp add: McSimul_grid_form)

lemma McSimul_grid_step:
  assumes "1 \<le> i" and "i < 119"
  shows "McSimul_generate_time_vector p ! i - McSimul_generate_time_vector p ! (i - 1)
           = (if i = 60 then McSimul.maturity p - 118 / 252 else 1 / 252)"
proof -
  consider "i < 60" | "i = 60" | "60 < i"
    by linarith
  then show ?thesis
  proof cases
    case 1
    with assms have "i - 1 < 60" and "real (i - 1) = real i - 1"
      by simp_all
    with 1 show ?thesis
      by (simp add: McSimul_grid_form nth_append diff_divide_distrib)
  next
    case 2
    then show ?thesis
      by (simp add: McSimul_grid_form nth_append)
  next
    case 3
    with assms have "\<not> i < 60" and "\<not> i - 1 < 60" and "i - 60 < 59" and "i - 1 - 60 < 59"
      and "real (i - 1 - 60) = real (i - 60) - 1"
      by simp_all
    with 3 show ?thesis
      by (simp add: McSimul_grid_form nth_append diff_divide_distrib)
  qed
qed

lemma McSimul_grid_steps_nonneg:
  assumes "118 / 252 \<le> McSimul.maturity p"
  shows "\<forall>i \<in> set [1..<length (McSimul_generate_time_vector p)].
           0 \<le> McSimul_generate_time_vector p ! i - McSimul_generate_time_vector p ! (i - 1)"
proof
  fix i assume "i \<in> set [1..<length (McSimul_generate_time_vector p)]"
  then have "1 \<le> i" and "i < 119"
    by (simp_all add: McSimul_grid_length)
  from McSimul_grid_step [OF this, of p] assms
  show "0 \<le> McSimul_generate_time_vector p ! i - McSimul_generate_time_vector p ! (i - 1)"
    by (simp split: if_splits)
qed

lemma McSimul_grid_negative_step:
  assumes "McSimul.maturity p < 118 / 252"
  shows "\<exists>i \<in> set [1..<length (McSimul_generate_time_vector p)].
           McSimul_generate_time_vector p ! i - McSimul_generate_time_vector p ! (i - 1) < 0"
proof
  show "60 \<in> set [1..<length (McSimul_generate_time_vector p)]"
    by (simp add: McSimul_grid_length)
  from McSimul_grid_step [of 60 p] assms
  show "McSimul_generate_time_vector p ! 60 - McSimul_generate_time_vector p ! (60 - 1) < 0"
    by simp
qed

lemma those_Some_map: "those path = Some S \<Longrightarrow> path = map Some S"
proof (induction path arbitrary: S)
  case Nil
  then show ?case by simp
next
  case (Cons x path)
  then show ?case by (cases x) (auto split: option.splits)
qed

lemma sum_list_scaled_pos:
  fixes xs :: "real list"
  shows "xs \<noteq> [] \<Longrightarrow> \<forall>x \<in> set xs. 0 < c * x \<Longrightarrow> 0 < c * sum_list xs"
proof (induction xs)
  case Nil
  then show ?case by simp
next
  case (Cons x xs)
  show ?case
  proof (cases "xs = []")
    case True
    with Cons.prems show ?thesis by simp
  next
    case False
    with Cons have "0 < c * sum_list xs" and "0 < c * x"
      by simp_all
    then show ?thesis
      by (simp add: distrib_left)
  qed
qed

lemma sum_list_zeros:
  fixes xs :: "real list"
  shows "\<forall>x \<in> set xs. x = 0 \<Longrightarrow> sum_list xs = 0"
  by (induction xs) simp_all

lemma McSimul_payoff_defined:
  assumes "62 \<le> length S" and "\<forall>x \<in> set S. 0 < c * x"
  shows "\<exists>x. McSimul_calculate_payoff p S = Inr x"
proof -
  from assms(1) have ne: "take 60 S \<noteq> []" "drop 61 S \<noteq> []"
    by auto
  have "\<forall>x \<in> set (take 60 S). 0 < c * x"
    using assms(2) by (auto dest: in_set_takeD)
  with ne(1) have "0 < c * sum_list (take 60 S)"
    by (rule sum_list_scaled_pos)
  then have "sum_list (take 60 S) \<noteq> 0"
    by auto
  then have "np_mean (take 60 S) \<noteq> 0"
    using ne(1) by (simp add: np_mean_def)
  with ne show ?thesis
    by (simp add: McSimul_calculate_payoff_def)
qed

text \<open>
  The payoff of a trial is finite when the initial price is not zero and no step of the
  grid is negative; it is \<open>nan\<close> when the initial price is zero and when a step is
  negative.
\<close>

lemma McSimul_sample_finite:
  assumes "McSimul.initial_stock_price p \<noteq> 0" and "62 \<le> length t"
    and "\<forall>i \<in> set [1..<length t]. 0 \<le> t ! i - t ! (i - 1)"
  shows "McSimul_payoff_sample p (fst (McSimul_simulate_gbm p t z n)) \<noteq> None"
proof -
  define c :: real where "c = (if 0 < McSimul.initial_stock_price p then 1 else - 1)"
  let ?path = "fst (McSimul_simulate_gbm p t z n)"
  from assms(1) have "0 < c * McSimul.initial_stock_price p"
    by (simp add: c_def)
  with assms(3) have "\<forall>x \<in> set ?path. \<exists>v. x = Some v \<and> 0 < c * v"
    unfolding McSimul_simulate_gbm_def by (rule gbm_path_sign)
  moreover from this obtain S where S: "those ?path = Some S" "?path = map Some S"
    using those_finite [of ?path] by blast
  ultimately have "\<forall>v \<in> set S. 0 < c * v"
    by auto
  moreover have "length ?path = max (length t) 1"
    by (simp add: McSimul_simulate_gbm_def gbm_path_length)
  with S(2) assms(2) have "62 \<le> length S"
    by (metis length_map max.coboundedI1)
  ultimately obtain x where "McSimul_calculate_payoff p S = Inr x"
    using McSimul_payoff_defined by blast
  with S(1) show ?thesis
    by (simp add: McSimul_payoff_sample_def)
qed

lemma McSimul_sample_zero_price:
  assumes "McSimul.initial_stock_price p = 0"
  shows "McSimul_payoff_sample p (fst (McSimul_simulate_gbm p t z n)) = None"
proof (cases "those (fst (McSimul_simulate_gbm p t z n))")
  case None
  then show ?thesis
    by (simp add: McSimul_payoff_sample_def)
next
  case (Some S)
  have "\<forall>x \<in> set (fst (McSimul_simulate_gbm p t z n)). x = None \<or> x = Some 0"
    unfolding McSimul_simulate_gbm_def gbm_path_def
    by (rule gbm_loop_zero) (simp_all add: assms)
  with those_Some_map [OF Some] have "\<forall>v \<in> set S. v = 0"
    by auto
  then have "\<forall>v \<in> set (take 60 S). v = 0"
    by (auto dest: in_set_takeD)
  then have "sum_list (take 60 S) = 0"
    by (rule sum_list_zeros)
  then have "McSimul_calculate_payoff p S = Inl NonFinite"
    by (simp add: McSimul_calculate_payoff_def np_mean_def)
  with Some show ?thesis
    by (simp add: McSimul_payoff_sample_def)
qed

lemma McSimul_sample_negative_step:
  assumes "\<exists>i \<in> set [1..<length t]. t ! i - t ! (i - 1) < 0"
  shows "McSimul_payoff_sample p (fst (McSimul_simulate_gbm p t z n)) = None"
proof -
  from assms have "None \<in> set (fst (McSimul_simulate_gbm p t z n))"
    unfolding McSimul_simulate_gbm_def gbm_path_def by (rule gbm_loop_negative_step)
  then have "those (fst (McSimul_simulate_gbm p t z n)) = None"
    by (rule those_nan)
  then show ?thesis
    by (simp add: McSimul_payoff_sample_def)
qed

lemma McSimul_monte_carlo_length:
  "length (McSimul_simulate_monte_carlo p z n) = nat (McSimul.num_simulations p)"
  by (simp add: McSimul_simulate_monte_carlo_def McSimul_trials_length)

lemma McSimul_monte_carlo_finite:
  assumes "McSimul.initial_stock_price p \<noteq> 0" and "118 / 252 \<le> McSimul.maturity p"
  shows "None \<notin> set (McSimul_simulate_monte_carlo p z n)"
proof -
  have "\<forall>x \<in> set (fst (McSimul_trials p (McSimul_generate_time_vector p) z
                         (nat (McSimul.num_simulations p)) ([], n))). x \<noteq> None"
  proof (rule McSimul_trials_all [where Q = "\<lambda>x. x \<noteq> None"])
    show "McSimul_payoff_sample p
            (fst (McSimul_simulate_gbm p (McSimul_generate_time_vector p) z m)) \<noteq> None" for m
      by (rule McSimul_sample_finite [OF assms(1) _ McSimul_grid_steps_nonneg [OF assms(2)]])
        (simp add: McSimul_grid_length)
    show "\<forall>x \<in> set []. x \<noteq> (None :: real option)"
      by simp
  qed
  then show ?thesis
    by (auto simp: McSimul_simulate_monte_carlo_def)
qed

lemma McSimul_monte_carlo_nan:
  assumes "McSimul.initial_stock_price p = 0 \<or> McSimul.maturity p < 118 / 252"
  shows "McSimul_simulate_monte_carlo p z n = replicate (nat (McSimul.num_simulations p)) None"
proof -
  have "McSimul_payoff_sample p
          (fst (McSimul_simulate_gbm p (McSimul_generate_time_vector p) z m)) = None" for m
    using assms McSimul_sample_zero_price [of p]
      McSimul_sample_negative_step [OF McSimul_grid_negative_step, of p p z m]
    by blast
  then show ?thesis
    by (simp add: McSimul_simulate_monte_carlo_def McSimul_trials_constant_payoff)
qed

text \<open>Scenario A.\<close>

lemma scenario_A_path:
  "fst (McSimul_simulate_gbm scenario_A (McSimul_generate_time_vector scenario_A) z n)
     = replicate (length (McSimul_generate_time_vector scenario_A)) (Some 100)"
proof -
  have "118 / 252 \<le> McSimul.maturity scenario_A"
    by (simp add: scenario_A_def McSimul_init_def)
  from gbm_path_constant [OF McSimul_grid_steps_nonneg [OF this], of 100 z n]
  show ?thesis
    by (simp add: McSimul_simulate_gbm_def scenario_A_def McSimul_init_def McSimul_grid_length)
qed

lemma scenario_A_payoffs: "McSimul_simulate_monte_carlo scenario_A z n = replicate 10 (Some 1)"
proof -
  have "McSimul_payoff_sample scenario_A
          (fst (McSimul_simulate_gbm scenario_A (McSimul_generate_time_vector scenario_A) z m))
          = Some 1" for m
    using McSimul_sample_constant_path [of 119 100 scenario_A]
    by (simp add: scenario_A_path McSimul_grid_length) (simp add: scenario_A_def McSimul_init_def)
  moreover have "nat (McSimul.num_simulations scenario_A) = 10"
    by (simp add: scenario_A_def McSimul_init_def)
  ultimately show ?thesis
    by (simp add: McSimul_simulate_monte_carlo_def McSimul_trials_constant_payoff)
qed

text \<open>
  C4 (as amended). For the Vanilla pricer with \<open>S0 = 100\<close>, strike 0, volatility 0,
  drift 0, maturity 1 and 10 simulations, whatever the random draws and the quantile:
  every simulated path is constant at 100, every trial's payoff equals 1 (the ratio
  \<open>100 / 100\<close> of the two window means, less the strike 0), the running-mean series is
  all ones, both bound series equal it, and the final error is 0.
\<close>

theorem scenario_A_outcome:
  "fst (McSimul_simulate_gbm scenario_A (McSimul_generate_time_vector scenario_A) z n)
     = replicate (length (McSimul_generate_time_vector scenario_A)) (Some 100)
   \<and> McSimul_simulate_monte_carlo scenario_A z n = replicate 10 (Some 1)
   \<and> perform_monte_carlo a (replicate 10 1) = (replicate 10 1, replicate 10 1, replicate 10 1)
   \<and> final_error (perform_monte_carlo a (replicate 10 1)) = Inr 0"
  by (simp add: scenario_A_path scenario_A_payoffs perform_monte_carlo_replicate final_error_def)

theorem scenario_A_outcome_witness:
  "McSimul_simulate_monte_carlo scenario_A zero_draws 0
     = [Some 1, Some 1, Some 1, Some 1, Some 1, Some 1, Some 1, Some 1, Some 1, Some 1]
   \<and> fst (perform_monte_carlo 2 [1, 1, 1, 1, 1, 1, 1, 1, 1, 1]) = [1, 1, 1, 1, 1, 1, 1, 1, 1, 1]
   \<and> final_error (perform_monte_carlo 2 [1, 1, 1, 1, 1, 1, 1, 1, 1, 1]) = Inr 0"
  using scenario_A_outcome [of zero_draws 0 2]
  by (simp add: numeral_eq_Suc final_error_def)

text \<open>
  C4 as stated fails: the ten payoffs of Scenario A are not zeros.
\<close>

theorem scenario_A_payoffs_not_zero:
  "McSimul_simulate_monte_carlo scenario_A zero_draws 0 \<noteq> replicate 10 (Some 0)"
  by (simp add: scenario_A_payoffs)

text \<open>
  C5. The claim is that the payoff is \<open>max(avgLate / avgEarly - strike, 0)\<close> with
  \<open>avgLate\<close> the mean of the last 60 observations. On the 120 observations made of
  sixty 1s, then 61, then fifty-nine 1s, with strike 0, that formula gives 2; the code
  averages \<^verbatim>\<open>stock_prices[61:]\<close>, the last 59 observations, and returns 1.
\<close>

theorem vanilla_late_window_skips_observation:
  "McSimul_calculate_payoff (McSimul_init 1 0 1 0 1 (95 / 100) 1)
       (replicate 60 1 @ [61] @ replicate 59 1) = Inr 1
   \<and> spec_vanilla_payoff 0 (replicate 60 1 @ [61] @ replicate 59 1) = 2"
  by (simp add: McSimul_calculate_payoff_def McSimul_init_def spec_vanilla_payoff_def
      np_mean_def np_max_pair sum_list_replicate)

section \<open>Properties of the Tunnel pricer\<close>

lemma Tunnel_payoff_loop_zero_rates:
  "alpha p = 0 \<Longrightarrow> beta p = 0 \<Longrightarrow> Tunnel_payoff_loop p xs 0 = 0"
  by (induction xs) (simp_all add: Tunnel_payoff_step_def)

text \<open>
  C6. With \<open>alpha = beta = 0\<close> the Tunnel payoff of every trajectory is exactly
  \<open>max (S_final / S_0 - upperStrike) 0\<close>, whatever the interior observations: both
  accruing branches add zero and the reset branch sets the total to zero. The trajectory
  is not empty (the simulator never returns an empty one), \<open>K\<close> holds the two strikes
  and \<open>S_0\<close> is not zero.
\<close>

theorem tunnel_zero_rates_terminal_call:
  assumes "S \<noteq> []" and "2 \<le> length (K p)" and "S_0 p \<noteq> 0"
    and "alpha p = 0" and "beta p = 0"
  shows "Tunnel_payoff p S = Inr (max (last S / S_0 p - K p ! 1) 0)"
  using assms
  by (simp add: Tunnel_payoff_def Tunnel_payoff_loop_zero_rates np_max_pair max.commute)

theorem tunnel_zero_rates_terminal_call_witness:
  "Tunnel_payoff (Tunnel_init 1 [1, 2] (1 / 5) 0 1 (95 / 100) 0 0 1) [1, 3, 1 / 2, 4] = Inr 2"
  using tunnel_zero_rates_terminal_call
    [of "[1, 3, 1 / 2, 4]" "Tunnel_init 1 [1, 2] (1 / 5) 0 1 (95 / 100) 0 0 1"]
  by (simp add: Tunnel_init_def)

text \<open>The quarterly grid has no negative step.\<close>

lemma Tunnel_grid_steps_nonneg:
  "\<forall>i \<in> set [1..<length (Tunnel_generate_t p)].
     0 \<le> Tunnel_generate_t p ! i - Tunnel_generate_t p ! (i - 1)"
proof
  fix i assume "i \<in> set [1..<length (Tunnel_generate_t p)]"
  then have "1 \<le> i" and "i < nat \<lceil>(TunnelOptionPricer.maturity p - 0) / (1 / 4)\<rceil>"
    by (simp_all add: Tunnel_generate_t_def np_arange_def)
  moreover from this have "i - 1 < nat \<lceil>(TunnelOptionPricer.maturity p - 0) / (1 / 4)\<rceil>"
    and "real (i - 1) = real i - 1"
    by simp_all
  ultimately show "0 \<le> Tunnel_generate_t p ! i - Tunnel_generate_t p ! (i - 1)"
    by (simp add: Tunnel_generate_t_def np_arange_def algebra_simps)
qed

lemma Tunnel_grid_length:
  "length (Tunnel_generate_t p) = nat \<lceil>TunnelOptionPricer.maturity p * 4\<rceil>"
  by (simp add: Tunnel_generate_t_def np_arange_def)

text \<open>The payoff of a trial, for a non-zero and for a zero initial price.\<close>

lemma Tunnel_sample_finite:
  assumes "S_0 p \<noteq> 0" and "2 \<le> length (K p)"
    and "\<forall>i \<in> set [1..<length t]. 0 \<le> t ! i - t ! (i - 1)"
  shows "\<exists>x. Tunnel_payoff_sample p (fst (Tunnel_simulate_gbm p t z n)) = Inr (Some x)"
proof -
  define c :: real where "c = (if 0 < S_0 p then 1 else - 1)"
  let ?path = "fst (Tunnel_simulate_gbm p t z n)"
  from assms(1) have "0 < c * S_0 p"
    by (simp add: c_def)
  with assms(3) have "\<forall>x \<in> set ?path. \<exists>v. x = Some v \<and> 0 < c * v"
    unfolding Tunnel_simulate_gbm_def by (rule gbm_path_sign)
  then obtain S where S: "those ?path = Some S" "?path = map Some S"
    using those_finite [of ?path] by blast
  have "length ?path = max (length t) 1"
    by (simp add: Tunnel_simulate_gbm_def gbm_path_length)
  with S(2) have "S \<noteq> []"
    by auto
  with assms(1,2) obtain x where "Tunnel_payoff p S = Inr x"
    by (simp add: Tunnel_payoff_def)
  with S(1) show ?thesis
    by (simp add: Tunnel_payoff_sample_def)
qed

lemma zero_price_path:
  assumes "\<forall>i \<in> set [1..<length t]. 0 \<le> t ! i - t ! (i - 1)"
  shows "fst (gbm_path 0 mu_v sigma_v t z n) = replicate (max (length t) 1) (Some 0)"
proof -
  have "\<forall>x \<in> set (fst (gbm_loop mu_v sigma_v t z [1..<length t] ([Some 0], n))). x = Some 0"
    by (rule gbm_loop_invariant [where Q = "\<lambda>x. x = Some 0"])
      (use assms in \<open>simp_all add: gbm_step_def\<close>)
  then have "\<forall>y \<in> set (fst (gbm_path 0 mu_v sigma_v t z n)). y = Some 0"
    by (simp only: gbm_path_def)
  then have "replicate (length (fst (gbm_path 0 mu_v sigma_v t z n))) (Some 0)
               = fst (gbm_path 0 mu_v sigma_v t z n)"
    by (rule replicate_length_same)
  then show ?thesis
    by (simp add: gbm_path_length)
qed

lemma Tunnel_sample_zero_price:
  assumes "S_0 p = 0" and "length (K p) = 2"
    and "\<forall>i \<in> set [1..<length t]. 0 \<le> t ! i - t ! (i - 1)"
  shows "Tunnel_payoff_sample p (fst (Tunnel_simulate_gbm p t z n))
           = (if length t \<le> 1 then Inl ZeroDivisionError else Inr None)"
proof -
  let ?k = "max (length t) 1"
  have path: "fst (Tunnel_simulate_gbm p t z n) = replicate ?k (Some 0)"
    using zero_price_path [OF assms(3)] by (simp add: Tunnel_simulate_gbm_def assms(1))
  have those: "those (replicate ?k (Some (0::real))) = Some (replicate ?k 0)"
    using those_map_Some [of "replicate ?k (0::real)"] by simp
  have "Tunnel_payoff p (replicate ?k 0)
          = (if length t \<le> 1 then Inl ZeroDivisionError else Inl NonFinite)"
    using assms(1,2) by (auto simp: Tunnel_payoff_def max_def)
  then show ?thesis
    unfolding Tunnel_payoff_sample_def path those
    by (cases "length t \<le> 1") (simp_all only: option.case if_True if_False sum.case error.case)
qed

lemma Tunnel_trials_finite:
  assumes "\<And>n. \<exists>x. Tunnel_payoff_sample p (fst (Tunnel_simulate_gbm p t z n)) = Inr (Some x)"
  shows "None \<notin> set P \<Longrightarrow>
     \<exists>P' n'. Tunnel_trials p t z k (P, n) = Inr (P', n') \<and> length P' = length P + k
       \<and> None \<notin> set P'"
proof (induction k arbitrary: P n)
  case 0
  then show ?case by simp
next
  case (Suc k)
  obtain S n1 where sim: "Tunnel_simulate_gbm p t z n = (S, n1)"
    by (cases "Tunnel_simulate_gbm p t z n")
  with assms [of n] obtain x where pay: "Tunnel_payoff_sample p S = Inr (Some x)"
    by auto
  from Suc.prems have "None \<notin> set (P @ [Some x])"
    by simp
  from Suc.IH [OF this, of n1] show ?case
    by (simp add: sim pay)
qed

lemma Tunnel_trials_nan:
  assumes "\<And>n. Tunnel_payoff_sample p (fst (Tunnel_simulate_gbm p t z n)) = Inr None"
  shows "\<exists>n'. Tunnel_trials p t z k (P, n) = Inr (P @ replicate k None, n')"
proof (induction k arbitrary: P n)
  case 0
  then show ?case by simp
next
  case (Suc k)
  obtain S n1 where sim: "Tunnel_simulate_gbm p t z n = (S, n1)"
    by (cases "Tunnel_simulate_gbm p t z n")
  with assms [of n] have pay: "Tunnel_payoff_sample p S = Inr None"
    by simp
  from Suc.IH [of "P @ [None]" n1] show ?case
    by (simp add: sim pay replicate_app_Cons_same)
qed

lemma Tunnel_trials_exception:
  assumes "\<And>n. Tunnel_payoff_sample p (fst (Tunnel_simulate_gbm p t z n)) = Inl e"
  shows "Tunnel_trials p t z (Suc k) (P, n) = Inl e"
proof -
  obtain S n1 where sim: "Tunnel_simulate_gbm p t z n = (S, n1)"
    by (cases "Tunnel_simulate_gbm p t z n")
  with assms [of n] have "Tunnel_payoff_sample p S = Inl e"
    by simp
  then show ?thesis
    by (simp add: sim)
qed

lemma Tunnel_monte_carlo_finite:
  assumes "S_0 p \<noteq> 0" and "2 \<le> length (K p)"
  shows "\<exists>P. Tunnel_simulate_monte_carlo p z n = Inr P \<and> length P = nat (Ns p)
           \<and> None \<notin> set P"
proof -
  have "\<exists>P' n'. Tunnel_trials p (Tunnel_generate_t p) z (nat (Ns p)) ([], n) = Inr (P', n')
          \<and> length P' = length ([] :: real option list) + nat (Ns p) \<and> None \<notin> set P'"
    by (rule Tunnel_trials_finite)
      (simp_all add: Tunnel_sample_finite [OF assms Tunnel_grid_steps_nonneg])
  then show ?thesis
    by (auto simp: Tunnel_simulate_monte_carlo_def)
qed

lemma Tunnel_monte_carlo_zero_price:
  assumes "S_0 p = 0" and "length (K p) = 2"
  shows "1 / 4 < TunnelOptionPricer.maturity p \<Longrightarrow>
           Tunnel_simulate_monte_carlo p z n = Inr (replicate (nat (Ns p)) None)"
    and "TunnelOptionPricer.maturity p \<le> 1 / 4 \<Longrightarrow> 0 < Ns p \<Longrightarrow>
           Tunnel_simulate_monte_carlo p z n = Inl ZeroDivisionError"
proof -
  note sample = Tunnel_sample_zero_price [OF assms Tunnel_grid_steps_nonneg]
  {
    assume "1 / 4 < TunnelOptionPricer.maturity p"
    then have "1 < \<lceil>TunnelOptionPricer.maturity p * 4\<rceil>"
      by (simp add: less_ceiling_iff)
    then have "\<not> length (Tunnel_generate_t p) \<le> 1"
      by (simp add: Tunnel_grid_length)
    then have "Tunnel_payoff_sample p (fst (Tunnel_simulate_gbm p (Tunnel_generate_t p) z m))
                 = Inr None" for m
      by (simp add: sample)
    from Tunnel_trials_nan [of p "Tunnel_generate_t p" z "nat (Ns p)" "[]" n, OF this]
    show "Tunnel_simulate_monte_carlo p z n = Inr (replicate (nat (Ns p)) None)"
      by (auto simp: Tunnel_simulate_monte_carlo_def)
  }
  {
    assume "TunnelOptionPricer.maturity p \<le> 1 / 4" and "0 < Ns p"
    then have "\<lceil>TunnelOptionPricer.maturity p * 4\<rceil> \<le> 1"
      by (simp add: ceiling_le_iff)
    then have "length (Tunnel_generate_t p) \<le> 1"
      by (simp add: Tunnel_grid_length)
    then have "Tunnel_payoff_sample p (fst (Tunnel_simulate_gbm p (Tunnel_generate_t p) z m))
                 = Inl ZeroDivisionError" for m
      by (simp add: sample)
    from Tunnel_trials_exception [of p "Tunnel_generate_t p" z ZeroDivisionError _ "[]" n, OF this]
    have "Tunnel_trials p (Tunnel_generate_t p) z (Suc (nat (Ns p) - 1)) ([], n)
            = Inl ZeroDivisionError" .
    moreover from \<open>0 < Ns p\<close> have "Suc (nat (Ns p) - 1) = nat (Ns p)"
      by simp
    ultimately show "Tunnel_simulate_monte_carlo p z n = Inl ZeroDivisionError"
      by (simp add: Tunnel_simulate_monte_carlo_def)
  }
qed

section \<open>What happens on invalid input\<close>

text \<open>
  No constructor and no method checks its parameters, and no pricer defines or raises a
  configuration error.
\<close>

text \<open>
  C9 (as amended). Nothing is validated before the trials run. For every choice of the
  parameters the Vanilla run returns one payoff per trial, \<open>max (numSimulations, 0)\<close> in
  all: finite payoffs when the initial price is not zero and the maturity is at least
  \<open>118/252\<close> years, and only \<open>nan\<close> payoffs when the initial price is zero or the
  maturity is shorter (the step between the two windows of the grid is then negative).
  The Tunnel run with two strikes, in either order, and a non-zero initial price returns
  \<open>max (Ns, 0)\<close> finite payoffs; with a zero initial price it returns only \<open>nan\<close>
  payoffs when the maturity exceeds a quarter, and on the one-point grid of a shorter
  maturity its first trial raises \<open>ZeroDivisionError\<close>. A negative volatility, a
  confidence level outside \<open>(0, 1)\<close>, a non-positive number of simulations, a negative
  initial price and a lower strike at or above the upper one are all accepted.
\<close>

theorem runs_without_validation:
  "length (McSimul_simulate_monte_carlo
             (McSimul_init initial_stock_price_v strike_price_v volatility_v drift_v maturity_v
                confidence_interval_v num_simulations_v) z n) = nat num_simulations_v
   \<and> (initial_stock_price_v \<noteq> 0 \<and> 118 / 252 \<le> maturity_v \<longrightarrow>
        None \<notin> set (McSimul_simulate_monte_carlo
                       (McSimul_init initial_stock_price_v strike_price_v volatility_v drift_v
                          maturity_v confidence_interval_v num_simulations_v) z n))
   \<and> (initial_stock_price_v = 0 \<or> maturity_v < 118 / 252 \<longrightarrow>
        McSimul_simulate_monte_carlo
          (McSimul_init initial_stock_price_v strike_price_v volatility_v drift_v maturity_v
             confidence_interval_v num_simulations_v) z n
          = replicate (nat num_simulations_v) None)
   \<and> (S_0_v \<noteq> 0 \<longrightarrow>
        (\<exists>P. Tunnel_simulate_monte_carlo
                (Tunnel_init S_0_v [lower_strike, upper_strike] sigma_v mu_v Ns_v IC_v alpha_v
                   beta_v maturity_t) z n = Inr P
             \<and> length P = nat Ns_v \<and> None \<notin> set P))
   \<and> (S_0_v = 0 \<and> 1 / 4 < maturity_t \<longrightarrow>
        Tunnel_simulate_monte_carlo
          (Tunnel_init S_0_v [lower_strike, upper_strike] sigma_v mu_v Ns_v IC_v alpha_v
             beta_v maturity_t) z n = Inr (replicate (nat Ns_v) None))
   \<and> (S_0_v = 0 \<and> maturity_t \<le> 1 / 4 \<and> 0 < Ns_v \<longrightarrow>
        Tunnel_simulate_monte_carlo
          (Tunnel_init S_0_v [lower_strike, upper_strike] sigma_v mu_v Ns_v IC_v alpha_v
             beta_v maturity_t) z n = Inl ZeroDivisionError)"
proof -
  let ?V = "McSimul_init initial_stock_price_v strike_price_v volatility_v drift_v maturity_v
              confidence_interval_v num_simulations_v"
  let ?T = "Tunnel_init S_0_v [lower_strike, upper_strike] sigma_v mu_v Ns_v IC_v alpha_v
              beta_v maturity_t"
  have V: "McSimul.initial_stock_price ?V = initial_stock_price_v"
    "McSimul.maturity ?V = maturity_v" "McSimul.num_simulations ?V = num_simulations_v"
    by (simp_all add: McSimul_init_def)
  have T: "S_0 ?T = S_0_v" "K ?T = [lower_strike, upper_strike]" "Ns ?T = Ns_v"
    "TunnelOptionPricer.maturity ?T = maturity_t"
    by (simp_all add: Tunnel_init_def)
  have "length (McSimul_simulate_monte_carlo ?V z n) = nat num_simulations_v"
    using McSimul_monte_carlo_length [of ?V z n] by (simp only: V)
  moreover have "None \<notin> set (McSimul_simulate_monte_carlo ?V z n)"
    if "initial_stock_price_v \<noteq> 0 \<and> 118 / 252 \<le> maturity_v"
    using that McSimul_monte_carlo_finite [of ?V z n] by (simp add: V)
  moreover have "McSimul_simulate_monte_carlo ?V z n = replicate (nat num_simulations_v) None"
    if "initial_stock_price_v = 0 \<or> maturity_v < 118 / 252"
    using that McSimul_monte_carlo_nan [of ?V z n] by (simp add: V)
  moreover have "\<exists>P. Tunnel_simulate_monte_carlo ?T z n = Inr P \<and> length P = nat Ns_v
                   \<and> None \<notin> set P"
    if h: "S_0_v \<noteq> 0"
  proof -
    have a: "S_0 ?T \<noteq> 0"
      unfolding T using h by simp
    have b: "2 \<le> length (K ?T)"
      by (simp add: T)
    from Tunnel_monte_carlo_finite [OF a b, of z n] show ?thesis
      by (simp only: T)
  qed
  moreover have "Tunnel_simulate_monte_carlo ?T z n = Inr (replicate (nat Ns_v) None)"
    if h: "S_0_v = 0 \<and> 1 / 4 < maturity_t"
  proof -
    have a: "S_0 ?T = 0"
      unfolding T using h by simp
    have b: "length (K ?T) = 2"
      by (simp add: T)
    have c: "1 / 4 < TunnelOptionPricer.maturity ?T"
      unfolding T using h by simp
    from Tunnel_monte_carlo_zero_price(1) [OF a b c, of z n] show ?thesis
      by (simp only: T)
  qed
  moreover have "Tunnel_simulate_monte_carlo ?T z n = Inl ZeroDivisionError"
    if h: "S_0_v = 0 \<and> maturity_t \<le> 1 / 4 \<and> 0 < Ns_v"
  proof -
    have a: "S_0 ?T = 0"
      unfolding T using h by simp
    have b: "length (K ?T) = 2"
      by (simp add: T)
    have c: "TunnelOptionPricer.maturity ?T \<le> 1 / 4" and d: "0 < Ns ?T"
      unfolding T using h by simp_all
    from Tunnel_monte_carlo_zero_price(2) [OF a b c d, of z n] show ?thesis .
  qed
  ultimately show ?thesis
    by blast
qed

theorem runs_without_validation_witness:
  "length (McSimul_simulate_monte_carlo (McSimul_init 100 0 (- 1) 0 1 2 3) zero_draws 0) = 3
   \<and> None \<notin> set (McSimul_simulate_monte_carlo (McSimul_init 100 0 (- 1) 0 1 2 3) zero_draws 0)
   \<and> McSimul_simulate_monte_carlo (McSimul_init 0 0 (- 1) 0 1 2 3) zero_draws 0
       = [None, None, None]
   \<and> (\<exists>P. Tunnel_simulate_monte_carlo (Tunnel_init 1 [2, 1] (- 1) 0 (- 5) 2 0 0 1) zero_draws 0
             = Inr P \<and> length P = 0)
   \<and> Tunnel_simulate_monte_carlo (Tunnel_init 0 [2, 1] (- 1) 0 2 2 0 0 1) zero_draws 0
       = Inr [None, None]
   \<and> Tunnel_simulate_monte_carlo (Tunnel_init 0 [2, 1] (- 1) 0 2 2 0 0 (1 / 4)) zero_draws 0
       = Inl ZeroDivisionError"
  using runs_without_validation [of 100 0 "- 1" 0 1 2 3 zero_draws 0 1 2 1 "- 1" 0 "- 5" 2 0 0 1]
    runs_without_validation [of 0 0 "- 1" 0 1 2 3 zero_draws 0 0 2 1 "- 1" 0 2 2 0 0 1]
    runs_without_validation [of 0 0 "- 1" 0 1 2 3 zero_draws 0 0 2 1 "- 1" 0 2 2 0 0 "1 / 4"]
  by (simp add: numeral_eq_Suc)

lemma invalid_tunnel_payoff:
  "Tunnel_payoff (Tunnel_init 1 [2, 1] 0 0 1 2 0 0 1) (replicate 4 1) = Inr 0"
  by (simp add: Tunnel_payoff_def Tunnel_init_def numeral_eq_Suc Tunnel_payoff_step_def np_max_pair)

lemma invalid_tunnel_path:
  "fst (Tunnel_simulate_gbm (Tunnel_init 1 [2, 1] 0 0 1 2 0 0 1)
          (Tunnel_generate_t (Tunnel_init 1 [2, 1] 0 0 1 2 0 0 1)) z n) = replicate 4 (Some 1)"
proof -
  let ?p = "Tunnel_init 1 [2, 1] 0 0 1 2 0 0 1"
  have "length (Tunnel_generate_t ?p) = 4"
    by (simp add: Tunnel_grid_length Tunnel_init_def)
  with gbm_path_constant [OF Tunnel_grid_steps_nonneg [of ?p], of 1 z n]
  show ?thesis
    by (simp add: Tunnel_simulate_gbm_def Tunnel_init_def)
qed

text \<open>
  C9 as stated fails: a Tunnel pricer with lower strike 2 above upper strike 1 and
  confidence level 2 runs its trial and returns the payoff series \<open>[0]\<close>, and with
  \<open>-5\<close> simulations it returns the empty series; neither run fails.
\<close>

theorem invalid_tunnel_input_is_priced:
  "Tunnel_simulate_monte_carlo (Tunnel_init 1 [2, 1] 0 0 1 2 0 0 1) zero_draws 0 = Inr [Some 0]
   \<and> Tunnel_simulate_monte_carlo (Tunnel_init 1 [2, 1] 0 0 (- 5) 2 0 0 1) zero_draws 0 = Inr []"
proof
  let ?p = "Tunnel_init 1 [2, 1] 0 0 1 2 0 0 1"
  obtain S n1 where sim: "Tunnel_simulate_gbm ?p (Tunnel_generate_t ?p) zero_draws 0 = (S, n1)"
    by (cases "Tunnel_simulate_gbm ?p (Tunnel_generate_t ?p) zero_draws 0")
  with invalid_tunnel_path [of zero_draws 0] have S: "S = replicate 4 (Some 1)"
    by simp
  have "those (replicate 4 (Some (1::real))) = Some (replicate 4 1)"
    using those_map_Some [of "replicate 4 (1::real)"] by simp
  then have "Tunnel_payoff_sample ?p (replicate 4 (Some 1)) = Inr (Some 0)"
    by (simp add: Tunnel_payoff_sample_def invalid_tunnel_payoff)
  moreover have "nat (Ns ?p) = Suc 0"
    by (simp add: Tunnel_init_def)
  ultimately show "Tunnel_simulate_monte_carlo ?p zero_draws 0 = Inr [Some 0]"
    using sim by (simp add: Tunnel_simulate_monte_carlo_def S)
next
  show "Tunnel_simulate_monte_carlo (Tunnel_init 1 [2, 1] 0 0 (- 5) 2 0 0 1) zero_draws 0 = Inr []"
    by (simp add: Tunnel_simulate_monte_carlo_def Tunnel_init_def)
qed

section \<open>Properties of the Napoleon pricer\<close>

lemma Napoleon_groups_loop_sum:
  "Napoleon_groups_loop p gs payoff = payoff + sum_list (map (block_contribution p) gs)"
  by (induction gs arbitrary: payoff) simp_all

lemma Napoleon_outer_loop_sum:
  "Napoleon_outer_loop p S js payoff =
     payoff + real (length js)
       * sum_list (map (block_contribution p) (monthly_returns_grouped (monthly_returns S)))"
  by (induction js arbitrary: payoff) (simp_all add: Napoleon_groups_loop_sum algebra_simps)

lemma monthly_returns_grouped_nonempty:
  "g \<in> set (monthly_returns_grouped rs) \<Longrightarrow> g \<noteq> []"
  by (auto simp: monthly_returns_grouped_def)

lemma spec_napoleon_payoff_blocks:
  "spec_napoleon_payoff p S =
     sum_list (map (block_contribution p) (monthly_returns_grouped (monthly_returns S)))"
  unfolding spec_napoleon_payoff_def
  by (rule arg_cong [where f = sum_list], rule map_cong)
    (auto simp: block_contribution_def dest: monthly_returns_grouped_nonempty)

text \<open>The code's payoff is the specification's sum taken once per outer iteration.\<close>

lemma calculate_option_payoff_multiple:
  "0 \<notin> set (butlast S) \<Longrightarrow>
     calculate_option_payoff p S = Inr (real (length S div 12) * spec_napoleon_payoff p S)"
  by (simp add: calculate_option_payoff_def Napoleon_outer_loop_sum spec_napoleon_payoff_blocks)

lemma py_min_replicate: "0 < k \<Longrightarrow> py_min (replicate k c) = c"
proof -
  have "fold min (replicate m c) c = c" for m
    by (induction m) simp_all
  then show "0 < k \<Longrightarrow> py_min (replicate k c) = c"
    by (cases k) (simp_all add: py_min_def)
qed

lemma monthly_returns_replicate:
  assumes "c \<noteq> 0"
  shows "monthly_returns (replicate k c) = replicate (k - 1) 0"
proof -
  have "map (\<lambda>j. replicate k c ! j / replicate k c ! (j - 1) - 1) [1..<k]
          = map (\<lambda>j. 0) [1..<k]"
    using assms by (intro map_cong) auto
  then show ?thesis
    by (simp add: monthly_returns_def map_replicate_const)
qed

lemma block_contribution_zeros:
  "0 < m \<Longrightarrow> block_contribution p (replicate m 0) = max (fixed_coupon p) (floor_n p)"
  by (simp add: block_contribution_def py_min_replicate)

lemma spec_napoleon_payoff_constant:
  assumes "c \<noteq> 0"
  shows "spec_napoleon_payoff p (replicate k c) =
           real ((k - 1 + 11) div 12) * max (fixed_coupon p) (floor_n p)"
proof -
  let ?m = "(k - 1 + 11) div 12"
  have block: "block_contribution p (take 12 (drop (12 * j) (replicate (k - 1) 0)))
                 = max (fixed_coupon p) (floor_n p)" if "j < ?m" for j
  proof -
    from that have "12 * j < k - 1"
      by linarith
    then have "0 < min (k - 1 - 12 * j) 12"
      by simp
    then show ?thesis
      using block_contribution_zeros [of "min (k - 1 - 12 * j) 12" p]
      by (simp add: min.commute)
  qed
  have "map (block_contribution p) (monthly_returns_grouped (replicate (k - 1) 0))
          = map (\<lambda>j. block_contribution p (take 12 (drop (12 * j) (replicate (k - 1) 0)))) [0..<?m]"
    by (simp add: monthly_returns_grouped_def comp_def)
  also have "\<dots> = replicate ?m (max (fixed_coupon p) (floor_n p))"
    by (rule map_upt_constant) (rule block)
  finally show ?thesis
    by (simp add: spec_napoleon_payoff_blocks monthly_returns_replicate [OF assms]
        sum_list_replicate)
qed

text \<open>
  C1. The claim is that the Napoleon payoff is the sum over the blocks of 12 monthly
  returns of \<open>max(fixedCoupon + min(block), floor)\<close>, each block counted once. On the
  252 daily observations of one year, all equal to 100, with coupon 1 and floor 0, the 251
  returns are zero and form 21 blocks, each worth 1, so that sum is 21. The code runs its
  loop over the blocks once per outer iteration, \<open>252 / 12 = 21\<close> times, and
  returns 441.
\<close>

theorem napoleon_blocks_counted_per_outer_iteration:
  "calculate_option_payoff (Napoleon_init 100 0 0 1 (19 / 20) 1 1 0) (replicate 252 100) = Inr 441
   \<and> spec_napoleon_payoff (Napoleon_init 100 0 0 1 (19 / 20) 1 1 0) (replicate 252 100) = 21"
proof -
  let ?p = "Napoleon_init 100 0 0 1 (19 / 20) 1 1 0"
  have spec: "spec_napoleon_payoff ?p (replicate 252 100) = 21"
    using spec_napoleon_payoff_constant [of 100 ?p 252]
    by (simp add: Napoleon_init_def)
  have "0 \<notin> set (butlast (replicate 252 (100::real)))"
    by (simp add: butlast_conv_take)
  from calculate_option_payoff_multiple [OF this, of ?p] spec
  show ?thesis by simp
qed

section \<open>Sign of the payoffs\<close>

lemma block_contribution_ge_floor: "floor_n p \<le> block_contribution p g"
  by (simp add: block_contribution_def Let_def)

lemma Napoleon_payoff_nonneg:
  assumes "0 \<le> floor_n p" and "calculate_option_payoff p S = Inr x"
  shows "0 \<le> x"
proof -
  have "0 \<le> sum_list (map (block_contribution p) (monthly_returns_grouped (monthly_returns S)))"
  proof (rule sum_list_nonneg)
    fix y assume "y \<in> set (map (block_contribution p) (monthly_returns_grouped (monthly_returns S)))"
    then obtain g where "y = block_contribution p g"
      by auto
    with assms(1) block_contribution_ge_floor [of p g] show "0 \<le> y"
      by simp
  qed
  then have "0 \<le> Napoleon_outer_loop p S [0..<length S div 12] 0"
    by (simp add: Napoleon_outer_loop_sum)
  with assms(2) show ?thesis
    by (auto simp: calculate_option_payoff_def split: if_splits)
qed

lemma Tunnel_payoff_loop_nonneg:
  assumes "0 \<le> alpha p" and "0 \<le> beta p" and "0 < S_0 p"
  shows "(\<forall>s \<in> set xs. 0 \<le> s) \<Longrightarrow> 0 \<le> payoff \<Longrightarrow> 0 \<le> Tunnel_payoff_loop p xs payoff"
proof (induction xs arbitrary: payoff)
  case Nil
  then show ?case by simp
next
  case (Cons i rest)
  from Cons.prems have "0 \<le> i"
    by simp
  with assms Cons.prems(2) have "0 \<le> Tunnel_payoff_step p payoff i"
    by (simp add: Tunnel_payoff_step_def)
  with Cons.IH [of "Tunnel_payoff_step p payoff i"] Cons.prems(1) show ?case
    by simp
qed

lemma Tunnel_payoff_nonneg:
  assumes "0 \<le> alpha p" and "0 \<le> beta p" and "0 < S_0 p" and "\<forall>s \<in> set S. 0 \<le> s"
    and "Tunnel_payoff p S = Inr x"
  shows "0 \<le> x"
proof -
  have "\<forall>s \<in> set (drop 1 (take (length S - 1) S)). 0 \<le> s"
    using assms(4) by (auto dest!: in_set_dropD in_set_takeD)
  from Tunnel_payoff_loop_nonneg [OF assms(1-3) this, of 0]
  have "0 \<le> Tunnel_payoff_loop p (drop 1 (take (length S - 1) S)) 0"
    by simp
  moreover have "0 \<le> np_max [last S / S_0 p - K p ! 1, 0]"
    by (simp add: np_max_pair)
  ultimately show ?thesis
    using assms(5) by (auto simp: Tunnel_payoff_def split: if_splits)
qed

lemma McSimul_payoff_nonneg:
  "McSimul_calculate_payoff p S = Inr x \<Longrightarrow> 0 \<le> x"
  by (auto simp: McSimul_calculate_payoff_def np_max_pair split: if_splits)

text \<open>
  C3 (as amended). The Vanilla payoff is never negative. The Tunnel payoff is not
  negative when both rates are non-negative, \<open>S_0\<close> is positive and no observation is
  negative. The Napoleon payoff is not negative when the floor is not negative. Each
  statement is about a payoff the evaluator returns; the Himalaya evaluator is not
  covered.
\<close>

theorem payoffs_nonnegative:
  "(McSimul_calculate_payoff v stock_prices = Inr x \<longrightarrow> 0 \<le> x)
   \<and> (0 \<le> alpha p \<and> 0 \<le> beta p \<and> 0 < S_0 p \<and> (\<forall>s \<in> set S. 0 \<le> s)
        \<and> Tunnel_payoff p S = Inr y \<longrightarrow> 0 \<le> y)
   \<and> (0 \<le> floor_n q \<and> calculate_option_payoff q stock_trajectory = Inr w \<longrightarrow> 0 \<le> w)"
  using McSimul_payoff_nonneg Tunnel_payoff_nonneg Napoleon_payoff_nonneg by blast

theorem payoffs_nonnegative_witness:
  "McSimul_calculate_payoff scenario_A (replicate 119 100) = Inr 1 \<and> (0::real) \<le> 1
   \<and> Tunnel_payoff (Tunnel_init 1 [1, 2] (1 / 5) 0 1 (19 / 20) 1 1 1) [1, 3, 1 / 2, 4] = Inr 2
   \<and> (0::real) \<le> 2
   \<and> calculate_option_payoff (Napoleon_init 100 0 0 1 (19 / 20) 1 1 0) (replicate 252 100) = Inr 441
   \<and> (0::real) \<le> 441"
proof -
  have v: "McSimul_calculate_payoff scenario_A (replicate 119 100) = Inr 1"
    using McSimul_payoff_constant_path [of 119 100 scenario_A]
    by (simp add: scenario_A_def McSimul_init_def)
  have t: "Tunnel_payoff (Tunnel_init 1 [1, 2] (1 / 5) 0 1 (19 / 20) 1 1 1) [1, 3, 1 / 2, 4] = Inr 2"
    by (simp add: Tunnel_payoff_def Tunnel_init_def Tunnel_payoff_step_def np_max_pair)
  have "0 \<notin> set (butlast (replicate 252 (100::real)))"
    by (simp add: butlast_conv_take)
  from calculate_option_payoff_multiple [OF this, of "Napoleon_init 100 0 0 1 (19 / 20) 1 1 0"]
    spec_napoleon_payoff_constant [of 100 "Napoleon_init 100 0 0 1 (19 / 20) 1 1 0" 252]
  have n: "calculate_option_payoff (Napoleon_init 100 0 0 1 (19 / 20) 1 1 0) (replicate 252 100)
             = Inr 441"
    by (simp add: Napoleon_init_def)
  show ?thesis
    using payoffs_nonnegative
      [of scenario_A "replicate 119 100" 1
          "Tunnel_init 1 [1, 2] (1 / 5) 0 1 (19 / 20) 1 1 1" "[1, 3, 1 / 2, 4]" 2
          "Napoleon_init 100 0 0 1 (19 / 20) 1 1 0" "replicate 252 100" 441]
      v t n
    by simp
qed

lemma upt_1_12: "[1..<12] = [1, 2, 3, 4, 5, 6, 7, 8, 9, 10, 11]"
  by code_simp

lemma falling_returns:
  "monthly_returns [2, 1, 1, 1, 1, 1, 1, 1, 1, 1, 1, 1] = [- (1 / 2), 0, 0, 0, 0, 0, 0, 0, 0, 0, 0]"
  by (simp add: monthly_returns_def upt_1_12)

lemma falling_groups:
  "monthly_returns_grouped [- (1 / 2), 0, 0, 0, 0, 0, 0, 0, 0, 0, 0]
     = [[- (1 / 2), 0, 0, 0, 0, 0, 0, 0, 0, 0, 0]]"
  by (simp add: monthly_returns_grouped_def)

text \<open>
  C3 as stated fails for the Napoleon variant with a negative floor: with coupon 0 and
  floor \<open>-1\<close>, twelve observations that fall from 2 to 1 and stay there have the
  single block minimum \<open>-1/2\<close>, and the payoff is \<open>-1/2\<close>.
\<close>

theorem napoleon_negative_floor_negative_payoff:
  "calculate_option_payoff (Napoleon_init 2 0 0 1 (19 / 20) 1 0 (- 1))
     [2, 1, 1, 1, 1, 1, 1, 1, 1, 1, 1, 1] = Inr (- 1 / 2)"
  by (simp add: calculate_option_payoff_def falling_returns falling_groups
      block_contribution_def py_min_def Napoleon_init_def)

section \<open>Properties of the Himalaya pricer\<close>

lemma np_max_Max: "xs \<noteq> [] \<Longrightarrow> np_max xs = Max (set xs)"
proof (cases xs)
  case Nil
  then show "xs \<noteq> [] \<Longrightarrow> np_max xs = Max (set xs)" by simp
next
  case (Cons a list)
  show "np_max xs = Max (set xs)"
    unfolding Cons np_max_def list.sel by (rule Max.set_eq_fold [symmetric])
qed

lemma Himalaya_payoff_value:
  assumes "trajectory \<noteq> []" and "hd trajectory \<noteq> []"
    and "\<forall>series \<in> set trajectory. length series = length (hd trajectory)"
  shows "Himalaya_calculate_payoff p trajectory =
           Inr (Max (exp ` \<Union> (set ` set trajectory)) - HimalayaOptionPricer.strike_price p)"
proof -
  from assms(1,2) have "concat (map (map exp) trajectory) \<noteq> []"
    by (cases trajectory) simp_all
  then have "np_max (concat (map (map exp) trajectory))
               = Max (set (concat (map (map exp) trajectory)))"
    by (rule np_max_Max)
  also have "set (concat (map (map exp) trajectory)) = exp ` \<Union> (set ` set trajectory)"
    by (simp add: image_Union image_image)
  finally have m: "np_max (concat (map (map exp) trajectory))
                     = Max (exp ` \<Union> (set ` set trajectory))" .
  have shape: "\<not> (trajectory = [] \<or> hd trajectory = []
         \<or> (\<exists>series \<in> set trajectory. length series \<noteq> length (hd trajectory)))"
    using assms by blast
  show ?thesis
    unfolding Himalaya_calculate_payoff_def Let_def
    by (simp only: shape if_False m)
qed

text \<open>
  C2 (as amended). For series of equal, non-zero length the payoff is computed from the
  largest \<open>exp(logPrice)\<close> over all series and all grid steps, not only the final
  step: whenever that best value is at least the strike, the payoff equals
  \<open>max (best - strike) 0\<close>. With \<open>numAssets = 1\<close> the grid is the single point 0, the
  trajectory of an asset with initial value \<open>S0 > 0\<close> is the single value \<open>ln S0\<close>,
  and the payoff is \<open>max (S0 - strike) 0\<close> whenever the strike is at most \<open>S0\<close>.
\<close>

theorem himalaya_best_value_less_strike:
  "(trajectory \<noteq> [] \<and> hd trajectory \<noteq> []
      \<and> (\<forall>series \<in> set trajectory. length series = length (hd trajectory))
      \<and> HimalayaOptionPricer.strike_price p \<le> Max (exp ` \<Union> (set ` set trajectory))
    \<longrightarrow> Himalaya_calculate_payoff p trajectory =
          Inr (max (Max (exp ` \<Union> (set ` set trajectory)) - HimalayaOptionPricer.strike_price p) 0))
   \<and> (num_assets p = 1 \<longrightarrow> Himalaya_generate_time_vector p = [0])
   \<and> (0 < S0 \<and> initial_asset_values p = [S0]
    \<longrightarrow> simulate_trajectory p [0] z n = Inr ([[ln S0]], n))
   \<and> (0 < S0 \<and> HimalayaOptionPricer.strike_price p \<le> S0
    \<longrightarrow> Himalaya_calculate_payoff p [[ln S0]]
          = Inr (max (S0 - HimalayaOptionPricer.strike_price p) 0))"
proof (intro conjI impI)
  assume h: "trajectory \<noteq> [] \<and> hd trajectory \<noteq> []
      \<and> (\<forall>series \<in> set trajectory. length series = length (hd trajectory))
      \<and> HimalayaOptionPricer.strike_price p \<le> Max (exp ` \<Union> (set ` set trajectory))"
  then have "Himalaya_calculate_payoff p trajectory =
           Inr (Max (exp ` \<Union> (set ` set trajectory)) - HimalayaOptionPricer.strike_price p)"
    using Himalaya_payoff_value [of trajectory p] by blast
  with h show "Himalaya_calculate_payoff p trajectory =
          Inr (max (Max (exp ` \<Union> (set ` set trajectory)) - HimalayaOptionPricer.strike_price p) 0)"
    by (simp add: max_def)
next
  assume "num_assets p = 1"
  then show "Himalaya_generate_time_vector p = [0]"
    by (simp add: Himalaya_generate_time_vector_def)
next
  assume "0 < S0 \<and> initial_asset_values p = [S0]"
  then show "simulate_trajectory p [0] z n = Inr ([[ln S0]], n)"
    by (simp add: simulate_trajectory_def)
next
  assume "0 < S0 \<and> HimalayaOptionPricer.strike_price p \<le> S0"
  then show "Himalaya_calculate_payoff p [[ln S0]]
          = Inr (max (S0 - HimalayaOptionPricer.strike_price p) 0)"
    by (simp add: Himalaya_calculate_payoff_def np_max_def max_def)
qed

theorem himalaya_best_value_less_strike_witness:
  "Himalaya_calculate_payoff (Himalaya_init [3] 2 0 0 1 1 (19 / 20)) [[ln 3]] = Inr 1
   \<and> Himalaya_generate_time_vector (Himalaya_init [3] 2 0 0 1 1 (19 / 20)) = [0]
   \<and> simulate_trajectory (Himalaya_init [3] 2 0 0 1 1 (19 / 20)) [0] zero_draws 0 = Inr ([[ln 3]], 0)"
  using himalaya_best_value_less_strike
    [of "[[ln 3]]" "Himalaya_init [3] 2 0 0 1 1 (19 / 20)" 3 zero_draws 0]
  by (simp add: Himalaya_init_def)

text \<open>
  Below the strike the value returned is negative: in \<^verbatim>\<open>np.max(max_payoff - strike, 0)\<close>
  the zero is the axis argument, so nothing floors the difference.
\<close>

lemma himalaya_payoff_below_strike:
  "Himalaya_calculate_payoff (Himalaya_init [1] 2 0 0 1 1 (19 / 20)) [[0]] = Inr (- 1)"
  by (simp add: Himalaya_calculate_payoff_def Himalaya_init_def np_max_def)

lemma upt_1_2: "[1..<2] = [1]"
  by code_simp

text \<open>
  C2 as stated fails: one asset with initial value \<open>exp 1\<close>, drift \<open>-1\<close>,
  volatility 0 and a two-point grid has the log-price series \<open>[1, 0]\<close>. Its final
  value gives \<open>max (exp 0 - 0) 0 = 1\<close> for strike 0, and the code returns \<open>exp 1\<close>,
  the value at the first step.
\<close>

theorem himalaya_interior_value_sets_payoff:
  "Himalaya_generate_time_vector (Himalaya_init [exp 1] 0 0 (- 1) 1 2 (19 / 20)) = [0, 1]
   \<and> simulate_trajectory (Himalaya_init [exp 1] 0 0 (- 1) 1 2 (19 / 20)) [0, 1] zero_draws 0
       = Inr ([[1, 0]], 1)
   \<and> Himalaya_calculate_payoff (Himalaya_init [exp 1] 0 0 (- 1) 1 2 (19 / 20)) [[1, 0]]
       \<noteq> Inr (spec_himalaya_payoff 0 [[1, 0]])"
proof (intro conjI)
  show "Himalaya_generate_time_vector (Himalaya_init [exp 1] 0 0 (- 1) 1 2 (19 / 20)) = [0, 1]"
    by (simp add: Himalaya_generate_time_vector_def Himalaya_init_def numeral_2_eq_2)
  show "simulate_trajectory (Himalaya_init [exp 1] 0 0 (- 1) 1 2 (19 / 20)) [0, 1] zero_draws 0
       = Inr ([[1, 0]], 1)"
    by (simp add: simulate_trajectory_def Himalaya_init_def upt_1_2 zero_draws_def)
  show "Himalaya_calculate_payoff (Himalaya_init [exp 1] 0 0 (- 1) 1 2 (19 / 20)) [[1, 0]]
       \<noteq> Inr (spec_himalaya_payoff 0 [[1, 0]])"
    by (simp add: Himalaya_calculate_payoff_def Himalaya_init_def np_max_def
        spec_himalaya_payoff_def)
qed

end
